theory Spec2Isabelle
  imports Main "HOL-Library.Word"
begin

section \<open>Strings and thrown values\<close>

text \<open>
  The program is TypeScript on Node. Strings are modelled as \<open>string\<close> (byte lists; the two
  non-ASCII marks the bot posts are written as their UTF-8 bytes). A thrown value is either an
  \<open>Error\<close> object (name and message) or any other value, kept by its \<open>String(...)\<close>
  rendering.
\<close>

datatype exn = ErrorObj string string | Thrown string

text \<open>\<open>err instanceof Error ? err.message : String(err)\<close> and the template rendering
  \<open>`${error}`\<close> (which is \<open>Error.prototype.toString\<close> for an Error object).\<close>

fun String_of :: "exn \<Rightarrow> string" where
  "String_of (ErrorObj name msg) =
     (if name = [] then msg else if msg = [] then name else name @ '': '' @ msg)"
| "String_of (Thrown s) = s"

fun message_of :: "exn \<Rightarrow> string" where
  "message_of (ErrorObj name msg) = msg"
| "message_of (Thrown s) = s"

text \<open>Strings are kept as their UTF-8 bytes (a well-formed text has one such encoding), so
  the operations of the platform that work on characters or on UTF-16 code units first split
  the bytes into characters: \<open>utf8_len\<close> is the length of the encoding that a lead byte
  announces.\<close>

definition utf8_len :: "char \<Rightarrow> nat" where
  "utf8_len c =
     (if of_char c < (0xC0::nat) then 1
      else if of_char c < (0xE0::nat) then 2
      else if of_char c < (0xF0::nat) then 3
      else 4)"

fun utf8_chars :: "string \<Rightarrow> string list" where
  "utf8_chars [] = []"
| "utf8_chars (c # cs) =
     (c # take (utf8_len c - 1) cs) # utf8_chars (drop (utf8_len c - 1) cs)"

text \<open>The characters \<open>String.prototype.trim\<close> strips (WhiteSpace and LineTerminator of
  ECMAScript): U+0009 to U+000D, U+0020, U+00A0, U+1680, U+2000 to U+200A, U+2028, U+2029,
  U+202F, U+205F, U+3000 and U+FEFF, each by its UTF-8 encoding.\<close>

definition white_space :: "string list" where
  "white_space =
     [[CHR 0x09], [CHR 0x0A], [CHR 0x0B], [CHR 0x0C], [CHR 0x0D], [CHR 0x20],
      [CHR 0xC2, CHR 0xA0],
      [CHR 0xE1, CHR 0x9A, CHR 0x80],
      [CHR 0xE2, CHR 0x80, CHR 0x80], [CHR 0xE2, CHR 0x80, CHR 0x81],
      [CHR 0xE2, CHR 0x80, CHR 0x82], [CHR 0xE2, CHR 0x80, CHR 0x83],
      [CHR 0xE2, CHR 0x80, CHR 0x84], [CHR 0xE2, CHR 0x80, CHR 0x85],
      [CHR 0xE2, CHR 0x80, CHR 0x86], [CHR 0xE2, CHR 0x80, CHR 0x87],
      [CHR 0xE2, CHR 0x80, CHR 0x88], [CHR 0xE2, CHR 0x80, CHR 0x89],
      [CHR 0xE2, CHR 0x80, CHR 0x8A],
      [CHR 0xE2, CHR 0x80, CHR 0xA8], [CHR 0xE2, CHR 0x80, CHR 0xA9],
      [CHR 0xE2, CHR 0x80, CHR 0xAF],
      [CHR 0xE2, CHR 0x81, CHR 0x9F],
      [CHR 0xE3, CHR 0x80, CHR 0x80],
      [CHR 0xEF, CHR 0xBB, CHR 0xBF]]"

definition is_ws :: "string \<Rightarrow> bool" where
  "is_ws ch = (ch \<in> set white_space)"

text \<open>\<open>String.prototype.trim\<close>: white space characters are stripped from both ends.\<close>

definition trim :: "string \<Rightarrow> string" where
  "trim s = concat (rev (dropWhile is_ws (rev (dropWhile is_ws (utf8_chars s)))))"

text \<open>\<open>s.substring(0, n)\<close> counts UTF-16 code units: a character of four UTF-8 bytes is two
  units (a surrogate pair), every other character is one. When the cut falls inside a pair,
  the result ends in the lone high surrogate, written here by its three-byte generalised
  UTF-8 form.\<close>

definition high_surrogate :: "string \<Rightarrow> string" where
  "high_surrogate ch =
     (case ch of
        [b0, b1, b2, b3] \<Rightarrow>
          (let cp = (of_char b0 mod 8) * 262144 + (of_char b1 mod 64) * 4096
                      + (of_char b2 mod 64) * 64 + (of_char b3 mod (64::nat));
               hi = 55296 + (cp - 65536) div 1024
           in [CHR 0xED, char_of (128 + (hi div 64) mod 64), char_of (128 + hi mod 64)])
      | _ \<Rightarrow> ch)"

fun take_units :: "nat \<Rightarrow> string list \<Rightarrow> string list" where
  "take_units n [] = []"
| "take_units n (ch # chs) =
     (if n = 0 then []
      else if length ch = 4
        then (if n = 1 then [high_surrogate ch] else ch # take_units (n - 2) chs)
      else ch # take_units (n - 1) chs)"

definition substring0 :: "nat \<Rightarrow> string \<Rightarrow> string" where
  "substring0 n s = concat (take_units n (utf8_chars s))"

definition str_includes :: "string \<Rightarrow> char \<Rightarrow> bool" where
  "str_includes s c = (c \<in> set s)"

text \<open>\<open>s.includes(sub)\<close> for a substring.\<close>

fun includes_str :: "string \<Rightarrow> string \<Rightarrow> bool" where
  "includes_str [] sub = (sub = [])"
| "includes_str (x # xs) sub = (take (length sub) (x # xs) = sub \<or> includes_str xs sub)"

fun startsWith :: "string \<Rightarrow> char \<Rightarrow> bool" where
  "startsWith [] c = False"
| "startsWith (x # xs) c = (x = c)"

text \<open>\<open>s.split("#")\<close>: the pieces between the separators, never an empty array.\<close>

fun split_on :: "char \<Rightarrow> string \<Rightarrow> string list" where
  "split_on c [] = [[]]"
| "split_on c (x # xs) =
     (if x = c then [] # split_on c xs
      else (case split_on c xs of [] \<Rightarrow> [[x]] | p # ps \<Rightarrow> (x # p) # ps))"

text \<open>\<open>path.join(a, b)\<close> for a resolved directory \<open>a\<close> and a plain name \<open>b\<close>.\<close>

definition join :: "string \<Rightarrow> string \<Rightarrow> string" where
  "join a b = a @ ''/'' @ b"

section \<open>oauth.ts: PKCE flow over the chat channel\<close>

definition CLIENT_ID :: string where
  "CLIENT_ID = ''9d1c250a-e61b-44d9-88ed-5944d1962f5e''"

definition AUTHORIZE_URL :: string where
  "AUTHORIZE_URL = ''https://claude.ai/oauth/authorize''"

definition TOKEN_URL :: string where
  "TOKEN_URL = ''https://console.anthropic.com/v1/oauth/token''"

definition REDIRECT_URI :: string where
  "REDIRECT_URI = ''https://console.anthropic.com/oauth/code/callback''"

definition SCOPES :: string where
  "SCOPES = ''org:create_api_key user:profile user:inference''"

definition AUTH_TIMEOUT_MS :: int where
  "AUTH_TIMEOUT_MS = 10 * 60 * 1000"

text \<open>\<open>OAuthCredentials\<close>; its \<open>type\<close> field is the constant \<open>"oauth"\<close>.\<close>

record OAuthCredentials =
  refresh :: string
  access :: string
  expires :: int

record PendingAuth =
  verifier :: string
  challenge :: string
  createdAt :: int

text \<open>The part of the file system the module touches: file contents, directories and file
  modes. The \<open>fs\<close> calls are taken to succeed.\<close>

record FileSystem =
  files :: "string \<rightharpoonup> string"
  dirs :: "string set"
  modes :: "string \<rightharpoonup> nat"

text \<open>The module state: the \<open>pendingAuths\<close> map and the disk.\<close>

record OAuthState =
  pendingAuths :: "string \<rightharpoonup> PendingAuth"
  disk :: FileSystem

text \<open>Builtins of the platform the module calls, taken as parameters: \<open>JSON.stringify\<close> of
  the credential record, \<open>JSON.parse(content).anthropic || null\<close> (\<open>None\<close> when parsing
  throws), and SHA-256 of a string.\<close>

record Builtins =
  json_stringify :: "OAuthCredentials \<Rightarrow> string"
  json_anthropic :: "string \<Rightarrow> OAuthCredentials option option"
  sha256 :: "string \<Rightarrow> 8 word list"

definition existsSync :: "string \<Rightarrow> FileSystem \<Rightarrow> bool" where
  "existsSync p fs = (p \<in> dom (files fs) \<or> p \<in> dirs fs)"

definition getOAuthPath :: "string \<Rightarrow> FileSystem \<Rightarrow> string \<times> FileSystem" where
  "getOAuthPath workingDir fs =
     (let momDir = join workingDir ''.mom'';
          fs1 = (if \<not> existsSync momDir fs then fs\<lparr>dirs := insert momDir (dirs fs)\<rparr> else fs)
      in (join momDir ''oauth.json'', fs1))"

definition loadCredentials ::
  "Builtins \<Rightarrow> string \<Rightarrow> FileSystem \<Rightarrow> OAuthCredentials option \<times> FileSystem" where
  "loadCredentials bi workingDir fs =
     (let (filePath, fs1) = getOAuthPath workingDir fs in
      if \<not> existsSync filePath fs1 then (None, fs1)
      else (case files fs1 filePath of
              None \<Rightarrow> (None, fs1)
            | Some content \<Rightarrow>
                (case json_anthropic bi content of
                   None \<Rightarrow> (None, fs1)
                 | Some data \<Rightarrow> (data, fs1))))"

definition saveCredentials ::
  "Builtins \<Rightarrow> string \<Rightarrow> OAuthCredentials \<Rightarrow> FileSystem \<Rightarrow> FileSystem" where
  "saveCredentials bi workingDir credentials fs =
     (let (filePath, fs1) = getOAuthPath workingDir fs;
          fs2 = fs1\<lparr>files := (files fs1)(filePath \<mapsto> json_stringify bi credentials)\<rparr>
      in fs2\<lparr>modes := (modes fs2)(filePath \<mapsto> 384)\<rparr>)"

definition removeCredentials :: "string \<Rightarrow> FileSystem \<Rightarrow> FileSystem" where
  "removeCredentials workingDir fs =
     (let (filePath, fs1) = getOAuthPath workingDir fs in
      if existsSync filePath fs1 then fs1\<lparr>files := (files fs1)(filePath \<mapsto> ''{}'')\<rparr>
      else fs1)"

definition isLoggedIn :: "Builtins \<Rightarrow> string \<Rightarrow> FileSystem \<Rightarrow> bool \<times> FileSystem" where
  "isLoggedIn bi workingDir fs =
     (let (c, fs1) = loadCredentials bi workingDir fs in (c \<noteq> None, fs1))"

subsection \<open>PKCE and the authorization URL\<close>

definition b64url_alphabet :: string where
  "b64url_alphabet = ''ABCDEFGHIJKLMNOPQRSTUVWXYZabcdefghijklmnopqrstuvwxyz0123456789-_''"

definition b64char :: "nat \<Rightarrow> char" where
  "b64char n = b64url_alphabet ! (n mod 64)"

text \<open>\<open>Buffer.toString("base64url")\<close>: six bits a character, no padding.\<close>

fun base64url :: "8 word list \<Rightarrow> string" where
  "base64url (a # b # c # rest) =
     (let n = unat a * 65536 + unat b * 256 + unat c
      in b64char (n div 262144) # b64char (n div 4096) # b64char (n div 64) # b64char n
         # base64url rest)"
| "base64url [a, b] =
     (let n = unat a * 1024 + unat b * 4
      in [b64char (n div 4096), b64char (n div 64), b64char n])"
| "base64url [a] = (let n = unat a * 16 in [b64char (n div 64), b64char n])"
| "base64url [] = []"

text \<open>\<open>generatePKCE\<close>, with the 32 bytes of \<open>randomBytes(32)\<close> as an input.\<close>

definition generatePKCE :: "Builtins \<Rightarrow> 8 word list \<Rightarrow> string \<times> string" where
  "generatePKCE bi random =
     (let v = base64url random;
          c = base64url (sha256 bi v)
      in (v, c))"

text \<open>\<open>URLSearchParams.toString()\<close>: the application/x-www-form-urlencoded serializer.
  Alphanumerics and \<open>* - . _\<close> stay, a space becomes \<open>+\<close>, every other byte is
  percent-encoded with upper-case hex digits.\<close>

definition form_safe :: string where
  "form_safe = ''ABCDEFGHIJKLMNOPQRSTUVWXYZabcdefghijklmnopqrstuvwxyz0123456789*-._''"

definition hex_digit :: "nat \<Rightarrow> char" where
  "hex_digit n = ''0123456789ABCDEF'' ! (n mod 16)"

definition form_encode_char :: "char \<Rightarrow> string" where
  "form_encode_char c =
     (if c \<in> set form_safe then [c]
      else if c = CHR '' '' then ''+''
      else [CHR ''%'', hex_digit (of_char c div 16), hex_digit (of_char c)])"

definition form_encode :: "string \<Rightarrow> string" where
  "form_encode s = concat (map form_encode_char s)"

fun params_toString :: "(string \<times> string) list \<Rightarrow> string" where
  "params_toString [] = []"
| "params_toString [(k, v)] = form_encode k @ ''='' @ form_encode v"
| "params_toString ((k, v) # kv # rest) =
     form_encode k @ ''='' @ form_encode v @ ''&'' @ params_toString (kv # rest)"

definition authParams :: "string \<Rightarrow> string \<Rightarrow> (string \<times> string) list" where
  "authParams v c =
     [(''code'', ''true''),
      (''client_id'', CLIENT_ID),
      (''response_type'', ''code''),
      (''redirect_uri'', REDIRECT_URI),
      (''scope'', SCOPES),
      (''code_challenge'', c),
      (''code_challenge_method'', ''S256''),
      (''state'', v)]"

definition expired :: "int \<Rightarrow> PendingAuth \<Rightarrow> bool" where
  "expired now pending = (now - createdAt pending > AUTH_TIMEOUT_MS)"

text \<open>The loop of \<open>startLogin\<close> that deletes every expired entry of the map.\<close>

definition purge_expired :: "int \<Rightarrow> (string \<rightharpoonup> PendingAuth) \<Rightarrow> (string \<rightharpoonup> PendingAuth)" where
  "purge_expired now m =
     (\<lambda>id. case m id of None \<Rightarrow> None
                      | Some pending \<Rightarrow> if expired now pending then None else Some pending)"

definition startLogin ::
  "Builtins \<Rightarrow> 8 word list \<Rightarrow> int \<Rightarrow> string \<Rightarrow> OAuthState \<Rightarrow> string \<times> OAuthState" where
  "startLogin bi random now channelId st =
     (let m1 = purge_expired now (pendingAuths st);
          (v, c) = generatePKCE bi random;
          m2 = m1(channelId \<mapsto> \<lparr>verifier = v, challenge = c, createdAt = now\<rparr>)
      in (AUTHORIZE_URL @ ''?'' @ params_toString (authParams v c),
          st\<lparr>pendingAuths := m2\<rparr>))"

definition hasPendingAuth :: "int \<Rightarrow> string \<Rightarrow> OAuthState \<Rightarrow> bool \<times> OAuthState" where
  "hasPendingAuth now channelId st =
     (case pendingAuths st channelId of
        None \<Rightarrow> (False, st)
      | Some pending \<Rightarrow>
          if expired now pending
          then (False, st\<lparr>pendingAuths := (pendingAuths st)(channelId := None)\<rparr>)
          else (True, st))"

definition cancelLogin :: "string \<Rightarrow> OAuthState \<Rightarrow> OAuthState" where
  "cancelLogin channelId st = st\<lparr>pendingAuths := (pendingAuths st)(channelId := None)\<rparr>"

subsection \<open>Completing the flow\<close>

text \<open>The body posted to the token endpoint (\<open>req_code\<close> and \<open>req_state\<close> are its
  \<open>code\<close> and \<open>state\<close> keys); \<open>state\<close> is \<open>undefined\<close> (and then left out
  by \<open>JSON.stringify\<close>) when the pasted text has no separator.\<close>

record TokenRequest =
  grant_type :: string
  client_id :: string
  req_code :: string
  req_state :: "string option"
  redirect_uri :: string
  code_verifier :: string

record TokenData =
  access_token :: string
  refresh_token :: string
  expires_in :: int

text \<open>A response of \<open>fetch\<close>: its \<open>ok\<close> flag and what \<open>text()\<close> and \<open>json()\<close> give (each may
  throw). The endpoint is a function of the request: \<open>Inl\<close> when \<open>fetch\<close> itself throws.\<close>

record Response =
  ok :: bool
  body_text :: "exn + string"
  body_json :: "exn + TokenData"

type_synonym TokenEndpoint = "TokenRequest \<Rightarrow> exn + Response"

record LoginResult =
  success :: bool
  error :: "string option"

text \<open>The request \<open>completeLogin\<close> builds from the pasted text \<open>code#state\<close>.\<close>

definition token_request :: "PendingAuth \<Rightarrow> string \<Rightarrow> TokenRequest" where
  "token_request pending authCode =
     (let splits = split_on CHR ''#'' (trim authCode)
      in \<lparr>grant_type = ''authorization_code'', client_id = CLIENT_ID,
          req_code = hd splits,
          req_state = (if 1 < length splits then Some (splits ! 1) else None),
          redirect_uri = REDIRECT_URI, code_verifier = verifier pending\<rparr>)"

definition completeLogin ::
  "Builtins \<Rightarrow> TokenEndpoint \<Rightarrow> int \<Rightarrow> int \<Rightarrow> string \<Rightarrow> string \<Rightarrow> string \<Rightarrow> OAuthState
     \<Rightarrow> LoginResult \<times> OAuthState" where
  "completeLogin bi endpoint now_check now_token channelId authCode workingDir st =
     (case pendingAuths st channelId of
        None \<Rightarrow> (\<lparr>success = False, error = Some ''No pending login. Use /login to start.''\<rparr>, st)
      | Some pending \<Rightarrow>
          let dropped = st\<lparr>pendingAuths := (pendingAuths st)(channelId := None)\<rparr> in
          if expired now_check pending
          then (\<lparr>success = False, error = Some ''Login expired. Use /login to start again.''\<rparr>,
                dropped)
          else
            (case endpoint (token_request pending authCode) of
                  Inl e \<Rightarrow>
                    (\<lparr>success = False, error = Some (''Login failed: '' @ String_of e)\<rparr>, dropped)
                | Inr tokenResponse \<Rightarrow>
                    if \<not> ok tokenResponse
                    then (case body_text tokenResponse of
                            Inl e \<Rightarrow>
                              (\<lparr>success = False,
                                error = Some (''Login failed: '' @ String_of e)\<rparr>, dropped)
                          | Inr err \<Rightarrow>
                              (\<lparr>success = False,
                                error = Some (''Token exchange failed: '' @ err)\<rparr>, dropped))
                    else (case body_json tokenResponse of
                            Inl e \<Rightarrow>
                              (\<lparr>success = False,
                                error = Some (''Login failed: '' @ String_of e)\<rparr>, dropped)
                          | Inr tokenData \<Rightarrow>
                              let expiresAt = now_token + expires_in tokenData * 1000
                                                - 5 * 60 * 1000;
                                  credentials = \<lparr>refresh = refresh_token tokenData,
                                                 access = access_token tokenData,
                                                 expires = expiresAt\<rparr>
                              in (\<lparr>success = True, error = None\<rparr>,
                                  dropped\<lparr>disk := saveCredentials bi workingDir credentials
                                                      (disk dropped)\<rparr>))))"

section \<open>The chat transport and the effect trace\<close>

text \<open>
  Every call the program makes to a collaborator (the chat transport, the logger, the agent
  runner, the log synchroniser) is recorded, in order, in a trace. The transport is an input:
  a function of the calls made so far and the call being made, giving the returned message
  timestamp or the thrown value (for calls that return nothing the string is ignored). Calls
  to the logger, the runner's \<open>abort\<close> and the fire-and-forget completion signal are
  recorded too; they return nothing to the program and are taken not to throw.
\<close>

datatype Effect =
    PostMessage string string
  | UpdateMessage string string string
  | PostInThread string string string
  | DeleteMessage string string
  | UploadFile string string "string option" "string option"
  | LogBotResponse string string string
  | LogInfo string
  | LogWarning string string
  | RunnerAbort string
  | SyncLogToContext string string
  | RunnerRun string
  | SignalDone string string

type_synonym Transport = "Effect list \<Rightarrow> Effect \<Rightarrow> exn + string"

definition call :: "Transport \<Rightarrow> Effect \<Rightarrow> Effect list \<Rightarrow> (exn + string) \<times> Effect list" where
  "call tr e t = (tr t e, t @ [e])"

text \<open>JavaScript truthiness of an optional string: \<open>undefined\<close>, \<open>null\<close> and \<open>""\<close> are
  falsy.\<close>

fun truthy :: "string option \<Rightarrow> bool" where
  "truthy None = False"
| "truthy (Some s) = (s \<noteq> [])"

definition nl :: string where
  "nl = [CHR 0x0A]"

definition check_mark :: string where
  "check_mark = [CHR 0xE2, CHR 0x9C, CHR 0x93]"

definition ballot_x :: string where
  "ballot_x = [CHR 0xE2, CHR 0x9C, CHR 0x97]"

section \<open>auth.ts and commands.ts: the waiter-based login\<close>

text \<open>
  A \<open>PendingLogin\<close> holds the \<open>resolve\<close> and \<open>reject\<close> functions of the promise that
  \<open>onPrompt\<close> returned, and a timer. The promise is named by a number, and so is the
  timer; \<open>promises\<close> gives the state of every promise made, \<open>timers\<close> the timers that are
  set and neither cleared nor fired.
\<close>

datatype Waiter = Waiting | Resolved string | Rejected string

record PendingLogin =
  promise :: nat
  timeout :: nat

record AuthState =
  pendingLogins :: "string \<rightharpoonup> PendingLogin"
  promises :: "nat \<rightharpoonup> Waiter"
  timers :: "nat set"
  fresh :: nat
  has_anthropic :: bool
  posted :: "Effect list"

text \<open>Settling a promise: only a waiting promise changes.\<close>

definition settle :: "nat \<Rightarrow> Waiter \<Rightarrow> (nat \<rightharpoonup> Waiter) \<Rightarrow> (nat \<rightharpoonup> Waiter)" where
  "settle p v ps = (case ps p of Some Waiting \<Rightarrow> ps(p \<mapsto> v) | _ \<Rightarrow> ps)"

text \<open>The callbacks that \<open>authStorage.login\<close> (package pi-coding-agent, outside these
  sources) invokes before it first waits, in order; an input of \<open>handleLogin\<close>.\<close>

datatype LoginCall = OnAuth string | OnPrompt

definition login_message :: "string \<Rightarrow> string" where
  "login_message url =
     ''*Login to Anthropic*'' @ nl @ nl @
     ''1. Open this URL:'' @ nl @ url @ nl @ nl @
     ''2. Sign in and authorize'' @ nl @ nl @
     ''3. Copy the code and paste it here'' @ nl @ nl @
     ''_The code looks like: abc123...#xyz789..._''"

fun login_callback :: "string \<Rightarrow> LoginCall \<Rightarrow> AuthState \<Rightarrow> AuthState" where
  "login_callback channelId (OnAuth url) a =
     a\<lparr>posted := posted a @ [PostMessage channelId (login_message url)]\<rparr>"
| "login_callback channelId OnPrompt a =
     a\<lparr>pendingLogins := (pendingLogins a)(channelId \<mapsto>
            \<lparr>promise = fresh a, timeout = Suc (fresh a)\<rparr>),
        promises := (promises a)(fresh a \<mapsto> Waiting),
        timers := insert (Suc (fresh a)) (timers a),
        fresh := Suc (Suc (fresh a))\<rparr>"

text \<open>\<open>handleLogin\<close> up to the point where it waits for \<open>authStorage.login\<close>.\<close>

definition handleLogin :: "LoginCall list \<Rightarrow> string \<Rightarrow> AuthState \<Rightarrow> AuthState" where
  "handleLogin calls channelId a =
     (let a1 = (case pendingLogins a channelId of
                  None \<Rightarrow> a
                | Some existing \<Rightarrow>
                    a\<lparr>timers := timers a - {timeout existing},
                       promises := settle (promise existing)
                                     (Rejected ''Login cancelled - new login started'')
                                     (promises a),
                       pendingLogins := (pendingLogins a)(channelId := None)\<rparr>);
          a2 = a1\<lparr>posted := posted a1 @ [LogInfo (''['' @ channelId @ ''] Starting OAuth login'')]\<rparr>
      in fold (login_callback channelId) calls a2)"

text \<open>The rest of \<open>handleLogin\<close>, once \<open>authStorage.login\<close> has settled.\<close>

definition handleLogin_settled :: "exn option \<Rightarrow> string \<Rightarrow> AuthState \<Rightarrow> AuthState" where
  "handleLogin_settled outcome channelId a =
     (case outcome of
        None \<Rightarrow>
          a\<lparr>posted := posted a @
                [LogInfo (''['' @ channelId @ ''] OAuth login successful''),
                 PostMessage channelId
                   (check_mark @ '' Successfully logged in to Anthropic!'' @ nl @ nl @
                    ''You can now use Claude without an API key.'')]\<rparr>
      | Some err \<Rightarrow>
          let message = message_of err in
          if \<not> includes_str message ''cancelled''
          then a\<lparr>posted := posted a @
                    [LogWarning (''['' @ channelId @ ''] OAuth login failed'') message,
                     PostMessage channelId (ballot_x @ '' Login failed: '' @ message)]\<rparr>
          else a)"

text \<open>The timer set by \<open>onPrompt\<close> firing for a channel.\<close>

definition timer_fired :: "nat \<Rightarrow> nat \<Rightarrow> string \<Rightarrow> AuthState \<Rightarrow> AuthState" where
  "timer_fired t p channelId a =
     (if t \<in> timers a
      then a\<lparr>timers := timers a - {t},
              pendingLogins := (pendingLogins a)(channelId := None),
              promises := settle p (Rejected ''Login timed out after 10 minutes'') (promises a)\<rparr>
      else a)"

definition handleLogout :: "string \<Rightarrow> AuthState \<Rightarrow> AuthState" where
  "handleLogout channelId a =
     a\<lparr>has_anthropic := False,
        posted := posted a @
          [LogInfo (''['' @ channelId @ ''] Logged out of Anthropic''),
           PostMessage channelId (check_mark @ '' Logged out of Anthropic'')]\<rparr>"

definition auth_status :: "bool \<Rightarrow> bool \<Rightarrow> string" where
  "auth_status loggedIn hasEnvKey =
     (if loggedIn then check_mark @ '' Logged in via OAuth''
      else if hasEnvKey then ''Using API key from environment''
      else ballot_x @ '' Not authenticated. Use /login to authenticate.'')"

definition handleAuthStatus :: "bool \<Rightarrow> string \<Rightarrow> AuthState \<Rightarrow> AuthState" where
  "handleAuthStatus hasEnvKey channelId a =
     a\<lparr>posted := posted a @ [PostMessage channelId (auth_status (has_anthropic a) hasEnvKey)]\<rparr>"

definition tryCompleteLogin :: "string \<Rightarrow> string \<Rightarrow> AuthState \<Rightarrow> bool \<times> AuthState" where
  "tryCompleteLogin channelId txt a =
     (case pendingLogins a channelId of
        None \<Rightarrow> (False, a)
      | Some pending \<Rightarrow>
          if str_includes txt CHR ''#'' \<and> \<not> startsWith txt CHR ''/''
          then (True,
                a\<lparr>timers := timers a - {timeout pending},
                   pendingLogins := (pendingLogins a)(channelId := None),
                   promises := settle (promise pending) (Resolved (trim txt)) (promises a)\<rparr>)
          else (False, a))"


text \<open>\<open>tryHandleCommand\<close>: the result is its \<open>handled\<close> flag.\<close>

definition tryHandleCommand ::
  "LoginCall list \<Rightarrow> bool \<Rightarrow> string \<Rightarrow> string \<Rightarrow> AuthState \<Rightarrow> bool \<times> AuthState" where
  "tryHandleCommand calls hasEnvKey channelId raw a =
     (let txt = trim raw in
      if txt = ''/login'' \<or> txt = ''/login anthropic'' then (True, handleLogin calls channelId a)
      else if txt = ''/logout'' \<or> txt = ''/logout anthropic'' then (True, handleLogout channelId a)
      else if txt = ''/auth-status'' \<or> txt = ''/auth''
        then (True, handleAuthStatus hasEnvKey channelId a)
      else tryCompleteLogin channelId txt a)"

section \<open>main.ts: the streaming response adapter\<close>

record SlackEvent =
  ev_channel :: string
  ev_user :: string
  ev_text :: string
  ev_ts :: string
  ev_thread_ts :: "string option"

text \<open>The variables closed over by \<open>createSlackContext\<close>. \<open>updatePromise\<close> is the promise
  chain every operation is appended to: \<open>None\<close> when it is fulfilled, \<open>Some e\<close> when it is
  rejected with \<open>e\<close>.\<close>

record Adapter =
  messageTs :: "string option"
  threadMessageTs :: "string list"
  accumulatedText :: string
  isWorking :: bool
  updatePromise :: "exn option"
  eventFilename :: "string option"

definition workingIndicator :: string where
  "workingIndicator = '' ...''"

text \<open>\<open>event.text.match(/^\[EVENT:([^:]+):/)?.[1]\<close>\<close>

definition match_event_filename :: "string \<Rightarrow> string option" where
  "match_event_filename s =
     (if take 7 s = ''[EVENT:''
      then (let name = takeWhile (\<lambda>c. c \<noteq> CHR '':'') (drop 7 s)
            in if name \<noteq> [] \<and> length name < length (drop 7 s) then Some name else None)
      else None)"

definition createSlackContext :: "SlackEvent \<Rightarrow> bool \<Rightarrow> Adapter" where
  "createSlackContext event isEvent =
     \<lparr>messageTs = None, threadMessageTs = [], accumulatedText = [], isWorking = True,
      updatePromise = None,
      eventFilename = (if isEvent then match_event_filename (ev_text event) else None)\<rparr>"

text \<open>\<open>updatePromise = updatePromise.then(body); await updatePromise\<close>: on a rejected chain
  the body does not run and the caller gets the old rejection; otherwise the body runs and
  the chain takes its outcome. The result is what the awaiting caller sees: \<open>None\<close> for a
  normal return, \<open>Some e\<close> for a throw.\<close>

definition chained ::
  "(Adapter \<Rightarrow> Effect list \<Rightarrow> exn option \<times> Adapter \<times> Effect list)
     \<Rightarrow> Adapter \<Rightarrow> Effect list \<Rightarrow> exn option \<times> Adapter \<times> Effect list" where
  "chained body a t =
     (case updatePromise a of
        Some e \<Rightarrow> (Some e, a, t)
      | None \<Rightarrow> (let (r, a1, t1) = body a t in (r, a1\<lparr>updatePromise := r\<rparr>, t1)))"

definition displayText :: "Adapter \<Rightarrow> string" where
  "displayText a =
     (if isWorking a then accumulatedText a @ workingIndicator else accumulatedText a)"

text \<open>The shared tail of \<open>respond\<close> and \<open>replaceMessage\<close>: edit the primary message, or post
  it (in the thread of the triggering message when there is one).\<close>

definition post_or_update ::
  "Transport \<Rightarrow> SlackEvent \<Rightarrow> Adapter \<Rightarrow> Effect list \<Rightarrow> exn option \<times> Adapter \<times> Effect list" where
  "post_or_update tr event a t =
     (if truthy (messageTs a)
      then (case call tr (UpdateMessage (ev_channel event) (the (messageTs a)) (displayText a)) t of
              (Inl e, t1) \<Rightarrow> (Some e, a, t1)
            | (Inr _, t1) \<Rightarrow> (None, a, t1))
      else if truthy (ev_thread_ts event)
      then (case call tr (PostInThread (ev_channel event) (the (ev_thread_ts event))
                            (displayText a)) t of
              (Inl e, t1) \<Rightarrow> (Some e, a, t1)
            | (Inr ts, t1) \<Rightarrow> (None, a\<lparr>messageTs := Some ts\<rparr>, t1))
      else (case call tr (PostMessage (ev_channel event) (displayText a)) t of
              (Inl e, t1) \<Rightarrow> (Some e, a, t1)
            | (Inr ts, t1) \<Rightarrow> (None, a\<lparr>messageTs := Some ts\<rparr>, t1)))"

definition respond ::
  "Transport \<Rightarrow> SlackEvent \<Rightarrow> string \<Rightarrow> bool \<Rightarrow> Adapter \<Rightarrow> Effect list
     \<Rightarrow> exn option \<times> Adapter \<times> Effect list" where
  "respond tr event txt shouldLog =
     chained (\<lambda>a t.
       let a1 = a\<lparr>accumulatedText :=
                    (if accumulatedText a \<noteq> [] then accumulatedText a @ nl @ txt else txt)\<rparr>
       in (case post_or_update tr event a1 t of
             (Some e, a2, t2) \<Rightarrow> (Some e, a2, t2)
           | (None, a2, t2) \<Rightarrow>
               if shouldLog \<and> truthy (messageTs a2)
               then (None, a2, t2 @ [LogBotResponse (ev_channel event) txt (the (messageTs a2))])
               else (None, a2, t2)))"

definition replaceMessage ::
  "Transport \<Rightarrow> SlackEvent \<Rightarrow> string \<Rightarrow> Adapter \<Rightarrow> Effect list
     \<Rightarrow> exn option \<times> Adapter \<times> Effect list" where
  "replaceMessage tr event txt =
     chained (\<lambda>a t. post_or_update tr event (a\<lparr>accumulatedText := txt\<rparr>) t)"

definition respondInThread ::
  "Transport \<Rightarrow> SlackEvent \<Rightarrow> string \<Rightarrow> Adapter \<Rightarrow> Effect list
     \<Rightarrow> exn option \<times> Adapter \<times> Effect list" where
  "respondInThread tr event txt =
     chained (\<lambda>a t.
       if truthy (messageTs a)
       then (case call tr (PostInThread (ev_channel event) (the (messageTs a)) txt) t of
               (Inl e, t1) \<Rightarrow> (Some e, a, t1)
             | (Inr ts, t1) \<Rightarrow> (None, a\<lparr>threadMessageTs := threadMessageTs a @ [ts]\<rparr>, t1))
       else (None, a, t))"

definition setTyping ::
  "Transport \<Rightarrow> SlackEvent \<Rightarrow> bool \<Rightarrow> Adapter \<Rightarrow> Effect list
     \<Rightarrow> exn option \<times> Adapter \<times> Effect list" where
  "setTyping tr event isTyping a t =
     (if isTyping \<and> \<not> truthy (messageTs a)
      then chained (\<lambda>a t.
             if \<not> truthy (messageTs a)
             then (let a1 = a\<lparr>accumulatedText :=
                                 (if truthy (eventFilename a)
                                  then ''_Starting event: '' @ the (eventFilename a) @ ''_''
                                  else ''_Thinking_'')\<rparr>;
                       e = (if truthy (ev_thread_ts event)
                            then PostInThread (ev_channel event) (the (ev_thread_ts event))
                                   (accumulatedText a1 @ workingIndicator)
                            else PostMessage (ev_channel event)
                                   (accumulatedText a1 @ workingIndicator))
                   in (case call tr e t of
                         (Inl err, t1) \<Rightarrow> (Some err, a1, t1)
                       | (Inr ts, t1) \<Rightarrow> (None, a1\<lparr>messageTs := Some ts\<rparr>, t1)))
             else (None, a, t)) a t
      else (None, a, t))"

definition uploadFile ::
  "Transport \<Rightarrow> SlackEvent \<Rightarrow> string \<Rightarrow> string option \<Rightarrow> Adapter \<Rightarrow> Effect list
     \<Rightarrow> exn option \<times> Adapter \<times> Effect list" where
  "uploadFile tr event filePath title a t =
     (case call tr (UploadFile (ev_channel event) filePath title (ev_thread_ts event)) t of
        (Inl e, t1) \<Rightarrow> (Some e, a, t1)
      | (Inr _, t1) \<Rightarrow> (None, a, t1))"

definition setWorking ::
  "Transport \<Rightarrow> SlackEvent \<Rightarrow> bool \<Rightarrow> Adapter \<Rightarrow> Effect list
     \<Rightarrow> exn option \<times> Adapter \<times> Effect list" where
  "setWorking tr event working =
     chained (\<lambda>a t.
       let a1 = a\<lparr>isWorking := working\<rparr> in
       if truthy (messageTs a1)
       then (case call tr (UpdateMessage (ev_channel event) (the (messageTs a1)) (displayText a1)) t of
               (Inl e, t1) \<Rightarrow> (Some e, a1, t1)
             | (Inr _, t1) \<Rightarrow> (None, a1, t1))
       else (None, a1, t))"

text \<open>The loop of \<open>deleteMessage\<close> over the thread messages, given last-created first: each
  deletion is tried and what it throws is dropped.\<close>

fun delete_thread :: "Transport \<Rightarrow> string \<Rightarrow> string list \<Rightarrow> Effect list \<Rightarrow> Effect list" where
  "delete_thread tr ch [] t = t"
| "delete_thread tr ch (ts # rest) t = delete_thread tr ch rest (snd (call tr (DeleteMessage ch ts) t))"

definition deleteMessage ::
  "Transport \<Rightarrow> SlackEvent \<Rightarrow> Adapter \<Rightarrow> Effect list \<Rightarrow> exn option \<times> Adapter \<times> Effect list" where
  "deleteMessage tr event =
     chained (\<lambda>a t.
       let t1 = delete_thread tr (ev_channel event) (rev (threadMessageTs a)) t;
           a1 = a\<lparr>threadMessageTs := []\<rparr>
       in if truthy (messageTs a1)
          then (case call tr (DeleteMessage (ev_channel event) (the (messageTs a1))) t1 of
                  (Inl e, t2) \<Rightarrow> (Some e, a1, t2)
                | (Inr _, t2) \<Rightarrow> (None, a1\<lparr>messageTs := None\<rparr>, t2))
          else (None, a1, t1))"

section \<open>main.ts: channel state and the handler\<close>

text \<open>\<open>ChannelState\<close>. The runner and the store are objects of collaborators; they are kept
  by what identifies them (the channel directory, the working directory).\<close>

record ChannelState =
  running :: bool
  runner :: string
  store :: string
  stopRequested :: bool
  stopMessageTs :: "string option"

record World =
  channelStates :: "string \<rightharpoonup> ChannelState"
  oauth :: OAuthState
  trace :: "Effect list"

text \<open>What the agent run does while \<open>handleEvent\<close> waits for it: the calls it makes on the
  context adapter, and the stop requests for the channel that arrive meanwhile, in order
  (each handled to its end before the next step); then the stop reason it returns, or the
  value it throws.\<close>

datatype RunStep =
    CtxRespond string bool
  | CtxReplaceMessage string
  | CtxRespondInThread string
  | CtxSetTyping bool
  | CtxUploadFile string "string option"
  | CtxSetWorking bool
  | CtxDeleteMessage
  | StopRequest

record AgentRun =
  steps :: "RunStep list"
  outcome :: "exn + string"

text \<open>The inputs of one call of \<open>handleEvent\<close> that come from outside: the builtins, the
  transport, the working directory, the random bytes and the clock readings of the OAuth
  module, the token endpoint, the environment variables, the result of
  \<open>syncLogToContext\<close>, and the agent run.\<close>

record Env =
  builtins :: Builtins
  transport :: Transport
  workingDir :: string
  random :: "8 word list"
  now_start :: int
  now_pending :: int
  now_complete :: int
  now_token :: int
  endpoint :: TokenEndpoint
  hasEnvKey :: bool
  adapterUrl :: "string option"
  synced :: "exn + nat"
  agent :: AgentRun

definition getState :: "string \<Rightarrow> string \<Rightarrow> World \<Rightarrow> ChannelState \<times> World" where
  "getState wd channelId w =
     (case channelStates w channelId of
        Some st \<Rightarrow> (st, w)
      | None \<Rightarrow>
          (let st = \<lparr>running = False, runner = join wd channelId, store = wd,
                     stopRequested = False, stopMessageTs = None\<rparr>
           in (st, w\<lparr>channelStates := (channelStates w)(channelId \<mapsto> st)\<rparr>)))"

definition isRunning :: "string \<Rightarrow> World \<Rightarrow> bool" where
  "isRunning channelId w =
     (case channelStates w channelId of None \<Rightarrow> False | Some st \<Rightarrow> running st)"

text \<open>The body of \<open>handleStop\<close> on the result of \<open>channelStates.get(channelId)\<close>.\<close>

definition stop_state ::
  "Transport \<Rightarrow> string \<Rightarrow> ChannelState option \<Rightarrow> Effect list
     \<Rightarrow> exn option \<times> ChannelState option \<times> Effect list" where
  "stop_state tr channelId sto t =
     (case sto of
        Some st \<Rightarrow>
          if running st
          then (let st1 = st\<lparr>stopRequested := True\<rparr>;
                    t1 = t @ [RunnerAbort (runner st1)]
                in (case call tr (PostMessage channelId ''_Stopping..._'') t1 of
                      (Inl e, t2) \<Rightarrow> (Some e, Some st1, t2)
                    | (Inr ts, t2) \<Rightarrow> (None, Some (st1\<lparr>stopMessageTs := Some ts\<rparr>), t2)))
          else (case call tr (PostMessage channelId ''_Nothing running_'') t of
                  (Inl e, t1) \<Rightarrow> (Some e, sto, t1)
                | (Inr _, t1) \<Rightarrow> (None, sto, t1))
      | None \<Rightarrow>
          (case call tr (PostMessage channelId ''_Nothing running_'') t of
             (Inl e, t1) \<Rightarrow> (Some e, sto, t1)
           | (Inr _, t1) \<Rightarrow> (None, sto, t1)))"

definition handleStop :: "Transport \<Rightarrow> string \<Rightarrow> World \<Rightarrow> exn option \<times> World" where
  "handleStop tr channelId w =
     (case stop_state tr channelId (channelStates w channelId) (trace w) of
        (r, sto, t) \<Rightarrow> (r, w\<lparr>channelStates := (channelStates w)(channelId := sto), trace := t\<rparr>))"

text \<open>The state of a run in flight: the adapter, the channel's state object, the trace.\<close>

record Live =
  ctx :: Adapter
  chan :: ChannelState
  effects :: "Effect list"

definition on_ctx ::
  "(Adapter \<Rightarrow> Effect list \<Rightarrow> exn option \<times> Adapter \<times> Effect list) \<Rightarrow> Live \<Rightarrow> exn option \<times> Live" where
  "on_ctx f l = (case f (ctx l) (effects l) of (r, a, t) \<Rightarrow> (r, l\<lparr>ctx := a, effects := t\<rparr>))"

text \<open>One step of the run in flight. What a context call throws goes to the agent, what a
  stop request throws goes to the transport's dispatcher: neither reaches \<open>handleEvent\<close>.\<close>

fun run_step :: "Transport \<Rightarrow> SlackEvent \<Rightarrow> RunStep \<Rightarrow> Live \<Rightarrow> Live" where
  "run_step tr event (CtxRespond txt shouldLog) l = snd (on_ctx (respond tr event txt shouldLog) l)"
| "run_step tr event (CtxReplaceMessage txt) l = snd (on_ctx (replaceMessage tr event txt) l)"
| "run_step tr event (CtxRespondInThread txt) l = snd (on_ctx (respondInThread tr event txt) l)"
| "run_step tr event (CtxSetTyping b) l = snd (on_ctx (setTyping tr event b) l)"
| "run_step tr event (CtxUploadFile p title) l = snd (on_ctx (uploadFile tr event p title) l)"
| "run_step tr event (CtxSetWorking b) l = snd (on_ctx (setWorking tr event b) l)"
| "run_step tr event CtxDeleteMessage l = snd (on_ctx (deleteMessage tr event) l)"
| "run_step tr event StopRequest l =
     (case stop_state tr (ev_channel event) (Some (chan l)) (effects l) of
        (r, sto, t) \<Rightarrow> l\<lparr>chan := (case sto of Some st \<Rightarrow> st | None \<Rightarrow> chan l), effects := t\<rparr>)"

text \<open>\<open>await state.runner.run(ctx, state.store)\<close>\<close>

definition runner_run :: "Transport \<Rightarrow> SlackEvent \<Rightarrow> AgentRun \<Rightarrow> Live \<Rightarrow> (exn + string) \<times> Live" where
  "runner_run tr event ag l =
     (outcome ag,
      fold (run_step tr event) (steps ag) (l\<lparr>effects := effects l @ [RunnerRun (runner (chan l))]\<rparr>))"

text \<open>Decimal rendering of a number in a template string.\<close>

fun show_nat :: "nat \<Rightarrow> string" where
  "show_nat n =
     (if n < 10 then [''0123456789'' ! n]
      else show_nat (n div 10) @ [''0123456789'' ! (n mod 10)])"

text \<open>\<open>adapterUrl.replace(/\/api\/?$/, "")\<close>\<close>

definition strip_api :: "string \<Rightarrow> string" where
  "strip_api url =
     (if 5 \<le> length url \<and> drop (length url - 5) url = ''/api/'' then take (length url - 5) url
      else if 4 \<le> length url \<and> drop (length url - 4) url = ''/api'' then take (length url - 4) url
      else url)"

text \<open>The \<open>try\<close> block up to the agent run: synchronise the log, create the adapter,
  post the typing message, set the working indicator. \<open>Some e\<close> is a throw.\<close>

definition prepare ::
  "Env \<Rightarrow> SlackEvent \<Rightarrow> bool \<Rightarrow> ChannelState \<Rightarrow> Effect list \<Rightarrow> exn option \<times> Live" where
  "prepare env event isEvent st t =
     (let t1 = t @ [SyncLogToContext (join (workingDir env) (ev_channel event)) (ev_ts event)] in
      case synced env of
        Inl e \<Rightarrow> (Some e, \<lparr>ctx = createSlackContext event isEvent, chan = st, effects = t1\<rparr>)
      | Inr syncedCount \<Rightarrow>
          let t2 = (if 0 < syncedCount
                    then t1 @ [LogInfo (''['' @ ev_channel event @ ''] Synced '' @
                                 show_nat syncedCount @ '' messages from log to context'')]
                    else t1);
              l0 = \<lparr>ctx = createSlackContext event isEvent, chan = st, effects = t2\<rparr>
          in (case on_ctx (setTyping (transport env) event True) l0 of
                (Some e, l1) \<Rightarrow> (Some e, l1)
              | (None, l1) \<Rightarrow> on_ctx (setWorking (transport env) event True) l1))"

text \<open>The completion signal to the protocol adapter, sent (and not waited for) when
  \<open>MOM_SLACK_API_URL\<close> is set.\<close>

definition signal_done :: "Env \<Rightarrow> SlackEvent \<Rightarrow> Effect list \<Rightarrow> Effect list" where
  "signal_done env event t =
     (if truthy (adapterUrl env)
      then t @ [SignalDone (strip_api (the (adapterUrl env)) @ ''/done'') (ev_channel event)]
      else t)"

text \<open>The \<open>try\<close> block up to and including the completion signal: the preparation, the
  agent run, clearing the working indicator, signalling the protocol adapter. The result is
  the agent's stop reason, or what was thrown, with the channel state and the trace at that
  point.\<close>

definition run_agent ::
  "Env \<Rightarrow> SlackEvent \<Rightarrow> bool \<Rightarrow> ChannelState \<Rightarrow> Effect list
     \<Rightarrow> (exn + string) \<times> ChannelState \<times> Effect list" where
  "run_agent env event isEvent st t =
     (case prepare env event isEvent st t of
        (Some e, l2) \<Rightarrow> (Inl e, chan l2, effects l2)
      | (None, l2) \<Rightarrow>
     (case runner_run (transport env) event (agent env) l2 of
        (Inl e, l3) \<Rightarrow> (Inl e, chan l3, effects l3)
      | (Inr stopReason, l3) \<Rightarrow>
     (case on_ctx (setWorking (transport env) event False) l3 of
        (Some e, l4) \<Rightarrow> (Inl e, chan l4, effects l4)
      | (None, l4) \<Rightarrow>
          (Inr stopReason, chan l4, signal_done env event (effects l4)))))"

text \<open>The end of the \<open>try\<close> block: after an aborted run that was asked to stop, the
  acknowledgement is replaced by the terminal message.\<close>

definition reconcile_stop ::
  "Transport \<Rightarrow> SlackEvent \<Rightarrow> string \<Rightarrow> ChannelState \<Rightarrow> Effect list
     \<Rightarrow> exn option \<times> ChannelState \<times> Effect list" where
  "reconcile_stop tr event stopReason st t =
     (if stopReason = ''aborted'' \<and> stopRequested st
      then (if truthy (stopMessageTs st)
            then (case call tr (UpdateMessage (ev_channel event) (the (stopMessageTs st))
                                  ''_Stopped_'') t of
                    (Inl e, t1) \<Rightarrow> (Some e, st, t1)
                  | (Inr _, t1) \<Rightarrow> (None, st\<lparr>stopMessageTs := None\<rparr>, t1))
            else (case call tr (PostMessage (ev_channel event) ''_Stopped_'') t of
                    (Inl e, t1) \<Rightarrow> (Some e, st, t1)
                  | (Inr _, t1) \<Rightarrow> (None, st, t1)))
      else (None, st, t))"

definition try_block ::
  "Env \<Rightarrow> SlackEvent \<Rightarrow> bool \<Rightarrow> ChannelState \<Rightarrow> Effect list
     \<Rightarrow> exn option \<times> ChannelState \<times> Effect list" where
  "try_block env event isEvent st t =
     (case run_agent env event isEvent st t of
        (Inl e, st1, t1) \<Rightarrow> (Some e, st1, t1)
      | (Inr stopReason, st1, t1) \<Rightarrow> reconcile_stop (transport env) event stopReason st1 t1)"

text \<open>The normal message handling of \<open>handleEvent\<close>: start the run (\<open>begin_state\<close>
  sets the flags, \<open>begin_trace\<close> logs the start), the \<open>try\<close> block, the \<open>catch\<close> that
  logs, the \<open>finally\<close> that clears the flag. Nothing is thrown.\<close>

definition begin_state :: "ChannelState \<Rightarrow> ChannelState" where
  "begin_state st = st\<lparr>running := True, stopRequested := False\<rparr>"

definition begin_trace :: "SlackEvent \<Rightarrow> Effect list \<Rightarrow> Effect list" where
  "begin_trace event t =
     t @ [LogInfo (''['' @ ev_channel event @ ''] Starting run: '' @ substring0 50 (ev_text event))]"

definition start_run ::
  "Env \<Rightarrow> SlackEvent \<Rightarrow> bool \<Rightarrow> ChannelState \<Rightarrow> Effect list \<Rightarrow> ChannelState \<times> Effect list" where
  "start_run env event isEvent st t =
     (let st0 = begin_state st;
          t0 = begin_trace event t
      in (case try_block env event isEvent st0 t0 of
            (None, st1, t1) \<Rightarrow> (st1\<lparr>running := False\<rparr>, t1)
          | (Some err, st1, t1) \<Rightarrow>
              (st1\<lparr>running := False\<rparr>,
               t1 @ [LogWarning (''['' @ ev_channel event @ ''] Run error'') (message_of err)])))"

text \<open>Where \<open>handleEvent\<close> sends a message, in the order of its tests.\<close>

datatype Route = Login | Logout | AuthStatus | Completion | AgentPath

definition route :: "Env \<Rightarrow> SlackEvent \<Rightarrow> OAuthState \<Rightarrow> Route" where
  "route env event oa =
     (let txt = trim (ev_text event) in
      if txt = ''/login'' \<or> txt = ''/login anthropic'' then Login
      else if txt = ''/logout'' \<or> txt = ''/logout anthropic'' then Logout
      else if txt = ''/auth-status'' \<or> txt = ''/auth'' then AuthStatus
      else if fst (hasPendingAuth (now_pending env) (ev_channel event) oa)
              \<and> str_includes txt CHR ''#'' \<and> \<not> startsWith txt CHR ''/'' then Completion
      else AgentPath)"

definition post :: "Transport \<Rightarrow> string \<Rightarrow> string \<Rightarrow> World \<Rightarrow> exn option \<times> World" where
  "post tr channelId txt w =
     (case call tr (PostMessage channelId txt) (trace w) of
        (Inl e, t) \<Rightarrow> (Some e, w\<lparr>trace := t\<rparr>)
      | (Inr _, t) \<Rightarrow> (None, w\<lparr>trace := t\<rparr>))"

definition completion_text :: "LoginResult \<Rightarrow> string" where
  "completion_text res =
     (if success res
      then check_mark @ '' Successfully logged in to Anthropic!'' @ nl @ nl @
           ''You can now use Claude without an API key.''
      else ballot_x @ '' Login failed: '' @ (case error res of Some e \<Rightarrow> e | None \<Rightarrow> ''undefined''))"

definition handleEvent :: "Env \<Rightarrow> SlackEvent \<Rightarrow> bool \<Rightarrow> World \<Rightarrow> exn option \<times> World" where
  "handleEvent env event isEvent w =
     (let (st, w0) = getState (workingDir env) (ev_channel event) w;
          txt = trim (ev_text event)
      in case route env event (oauth w0) of
           Login \<Rightarrow>
             (let (authUrl, oa) = startLogin (builtins env) (random env) (now_start env)
                                   (ev_channel event) (oauth w0)
              in post (transport env) (ev_channel event) (login_message authUrl)
                   (w0\<lparr>oauth := oa\<rparr>))
         | Logout \<Rightarrow>
             post (transport env) (ev_channel event) (check_mark @ '' Logged out of Anthropic'')
               (w0\<lparr>oauth := (oauth w0)\<lparr>disk := removeCredentials (workingDir env)
                                                  (disk (oauth w0))\<rparr>\<rparr>)
         | AuthStatus \<Rightarrow>
             (let (loggedIn, fs) = isLoggedIn (builtins env) (workingDir env) (disk (oauth w0))
              in post (transport env) (ev_channel event) (auth_status loggedIn (hasEnvKey env))
                   (w0\<lparr>oauth := (oauth w0)\<lparr>disk := fs\<rparr>\<rparr>))
         | Completion \<Rightarrow>
             (let o1 = snd (hasPendingAuth (now_pending env) (ev_channel event) (oauth w0));
                  (res, o2) = completeLogin (builtins env) (endpoint env) (now_complete env)
                                (now_token env) (ev_channel event) txt (workingDir env) o1
              in post (transport env) (ev_channel event) (completion_text res)
                   (w0\<lparr>oauth := o2\<rparr>))
         | AgentPath \<Rightarrow>
             (let o1 = snd (hasPendingAuth (now_pending env) (ev_channel event) (oauth w0));
                  (st1, t1) = start_run env event isEvent st (trace w0)
              in (None, w0\<lparr>channelStates := (channelStates w0)(ev_channel event \<mapsto> st1),
                           oauth := o1, trace := t1\<rparr>)))"

text \<open>A sequence of inbound events, handled one after the other: a message for
  \<open>handleEvent\<close> with the outside inputs of that call, or a stop request for
  \<open>handleStop\<close>.\<close>

datatype Inbound = Message Env SlackEvent bool | Stop Transport string

fun dispatch :: "Inbound \<Rightarrow> World \<Rightarrow> World" where
  "dispatch (Message env event isEvent) w = snd (handleEvent env event isEvent w)"
| "dispatch (Stop tr channelId) w = snd (handleStop tr channelId w)"

definition run_all :: "Inbound list \<Rightarrow> World \<Rightarrow> World" where
  "run_all evs w = fold dispatch evs w"


section \<open>The context window builder\<close>

text \<open>Modelled from the spec: a log entry of the Persisted Log (timestamp id, author, text,
  attachment references). The module \<open>context.js\<close> that \<open>main.ts\<close> imports is not among the
  sources; only planning notes for it are.\<close>

record LogEntry =
  entry_ts :: string
  author :: string
  entry_text :: string
  entry_attachments :: "string list"

text \<open>Modelled from the spec: the Context Budget, with
  \<open>availableForHistory = maxInputTokens - reservedForOutput - fixedOverhead\<close>, the fixed
  overhead being the estimates for system prompt, memory files and tool schema.\<close>

record WindowConfig =
  maxInputTokens :: int
  reservedForOutput :: int
  systemPromptTokens :: int
  memoryTokens :: int
  toolSchemaTokens :: int

definition availableForHistory :: "WindowConfig \<Rightarrow> int" where
  "availableForHistory cfg =
     maxInputTokens cfg - reservedForOutput cfg
       - (systemPromptTokens cfg + memoryTokens cfg + toolSchemaTokens cfg)"

text \<open>Modelled from the spec: the Window Result (selected entries in chronological order,
  \<open>totalTokens\<close>, \<open>messageCount\<close>, \<open>dateRange\<close>, \<open>droppedCount\<close>), with a flag for the
  truncation marker of a single oversized entry.\<close>

record WindowResult =
  selectedLines :: "LogEntry list"
  totalTokens :: nat
  messageCount :: nat
  dateRange :: "(string \<times> string) option"
  droppedCount :: nat
  truncated :: bool

text \<open>Modelled from the spec: reading the log in reverse chronological order (the list given
  is newest first), entries are accumulated while the running total stays within the budget;
  the scan stops at the first entry that would exceed it. The token estimate of an entry is a
  parameter.\<close>

fun accumulate :: "(LogEntry \<Rightarrow> nat) \<Rightarrow> int \<Rightarrow> int \<Rightarrow> LogEntry list \<Rightarrow> LogEntry list" where
  "accumulate cost avail running_total [] = []"
| "accumulate cost avail running_total (e # older) =
     (if running_total + int (cost e) \<le> avail
      then e # accumulate cost avail (running_total + int (cost e)) older
      else [])"

text \<open>Modelled from the spec: \<open>build\<close> of the Context Window Builder. The accumulated
  entries are reversed back to chronological order; an empty log gives an empty window; when
  not even the newest entry fits, it is included anyway, marked as truncated.\<close>

definition build :: "(LogEntry \<Rightarrow> nat) \<Rightarrow> LogEntry list \<Rightarrow> WindowConfig \<Rightarrow> WindowResult" where
  "build cost entries cfg =
     (let acc = accumulate cost (availableForHistory cfg) 0 (rev entries) in
      case (rev entries, acc) of
        (newest # older, []) \<Rightarrow>
          \<lparr>selectedLines = [newest], totalTokens = cost newest, messageCount = 1,
           dateRange = Some (entry_ts newest, entry_ts newest),
           droppedCount = length older, truncated = True\<rparr>
      | _ \<Rightarrow>
          \<lparr>selectedLines = rev acc, totalTokens = sum_list (map cost acc),
           messageCount = length acc,
           dateRange = (case acc of [] \<Rightarrow> None
                        | newest # _ \<Rightarrow> Some (entry_ts (last acc), entry_ts newest)),
           droppedCount = length entries - length acc, truncated = False\<rparr>)"

section \<open>Concrete inputs\<close>

text \<open>A transport on which every call succeeds (the timestamp returned is the position of
  the call in the trace), one on which every call throws, and one on which only deletions
  throw.\<close>

definition tr_ok :: Transport where
  "tr_ok t e = Inr (show_nat (length t))"

definition tr_down :: Transport where
  "tr_down t e = Inl (ErrorObj ''Error'' ''channel_not_found'')"

definition tr_no_delete :: Transport where
  "tr_no_delete t e =
     (case e of DeleteMessage c ts \<Rightarrow> Inl (ErrorObj ''Error'' ''cant_delete_message'')
              | _ \<Rightarrow> Inr (show_nat (length t)))"

text \<open>A transport that refuses only the stop acknowledgement.\<close>

definition tr_no_ack :: Transport where
  "tr_no_ack t e =
     (if e = PostMessage ''C1'' ''_Stopping..._'' then Inl (ErrorObj ''Error'' ''rate_limited'')
      else Inr (show_nat (length t)))"

text \<open>A transport that serves the first \<open>n\<close> calls of the trace and refuses every later
  one.\<close>

definition tr_until :: "nat \<Rightarrow> Transport" where
  "tr_until n t e =
     (if length t < n then Inr (show_nat (length t))
      else Inl (ErrorObj ''Error'' ''channel_not_found''))"

definition bi0 :: Builtins where
  "bi0 = \<lparr>json_stringify = (\<lambda>c. ''{anthropic:'' @ access c @ ''}''),
          json_anthropic = (\<lambda>s. if s = ''{}'' then Some None else None),
          sha256 = (\<lambda>s. [1, 2, 3])\<rparr>"

definition endpoint_400 :: TokenEndpoint where
  "endpoint_400 rq =
     Inr \<lparr>ok = False, body_text = Inr ''{error: invalid_grant}'',
          body_json = Inl (ErrorObj ''SyntaxError'' ''Unexpected token'')\<rparr>"

definition endpoint_unreachable :: TokenEndpoint where
  "endpoint_unreachable rq = Inl (ErrorObj ''TypeError'' ''fetch failed'')"

definition env0 :: Env where
  "env0 = \<lparr>builtins = bi0, transport = tr_ok, workingDir = ''/data'',
           random = [0x4D, 0x61, 0x6E], now_start = 1000, now_pending = 2000,
           now_complete = 2001, now_token = 2500, endpoint = endpoint_400,
           hasEnvKey = False, adapterUrl = None, synced = Inr 0,
           agent = \<lparr>steps = [CtxRespond ''working on it'' True, StopRequest],
                     outcome = Inr ''aborted''\<rparr>\<rparr>"

text \<open>The no-break space U+00A0.\<close>

definition nbsp :: string where
  "nbsp = [CHR 0xC2, CHR 0xA0]"

definition event0 :: "string \<Rightarrow> SlackEvent" where
  "event0 txt = \<lparr>ev_channel = ''C1'', ev_user = ''U1'', ev_text = txt, ev_ts = ''17.5'',
                 ev_thread_ts = None\<rparr>"

definition world0 :: World where
  "world0 = \<lparr>channelStates = Map.empty,
             oauth = \<lparr>pendingAuths = Map.empty,
                      disk = \<lparr>files = [''/data/.mom/oauth.json'' \<mapsto> ''{anthropic:tok}''],
                              dirs = {''/data/.mom''}, modes = Map.empty\<rparr>\<rparr>,
             trace = []\<rparr>"

text \<open>The world after \<open>/login\<close> on channel \<open>C1\<close>, and a waiter-based state with one login
  pending on that channel.\<close>

definition world1 :: World where
  "world1 = snd (handleEvent env0 (event0 ''/login'') False world0)"

definition auth1 :: AuthState where
  "auth1 = \<lparr>pendingLogins = [''C1'' \<mapsto> \<lparr>promise = 0, timeout = 1\<rparr>],
            promises = [0 \<mapsto> Waiting], timers = {1}, fresh = 2, has_anthropic = False,
            posted = []\<rparr>"

text \<open>The channel has a pending login made at or after the counter value \<open>n\<close>: its
  waiter is still waiting and its timer is running.\<close>

definition established :: "nat \<Rightarrow> string \<Rightarrow> AuthState \<Rightarrow> bool" where
  "established n c a =
     (case pendingLogins a c of
        None \<Rightarrow> False
      | Some p \<Rightarrow> n \<le> promise p \<and> n \<le> timeout p \<and> promise p < fresh a \<and> timeout p < fresh a
                  \<and> promises a (promise p) = Some Waiting \<and> timeout p \<in> timers a)"

text \<open>Three log entries, costed by the length of their text, and a budget of 12 tokens.\<close>

definition entry0 :: "string \<Rightarrow> string \<Rightarrow> LogEntry" where
  "entry0 t s = \<lparr>entry_ts = t, author = ''U1'', entry_text = s, entry_attachments = []\<rparr>"

definition cost0 :: "LogEntry \<Rightarrow> nat" where
  "cost0 e = length (entry_text e)"

definition cfg0 :: WindowConfig where
  "cfg0 = \<lparr>maxInputTokens = 100, reservedForOutput = 40, systemPromptTokens = 30,
           memoryTokens = 10, toolSchemaTokens = 8\<rparr>"

text \<open>An adapter that has posted a primary message and two thread messages, and the adapter
  left by a first \<open>respond\<close> that the transport refused.\<close>

definition ctx_posted :: Adapter where
  "ctx_posted = \<lparr>messageTs = Some ''2'', threadMessageTs = [''7'', ''8''],
                 accumulatedText = ''done'', isWorking = False, updatePromise = None,
                 eventFilename = None\<rparr>"

definition failed_respond :: "exn option \<times> Adapter \<times> Effect list" where
  "failed_respond =
     respond tr_down (event0 ''hello'') ''hi'' True (createSlackContext (event0 ''hello'') False) []"

section \<open>Facts about the handler's dispatch\<close>

lemma concat_utf8_chars: "concat (utf8_chars s) = s"
  by (induction s rule: utf8_chars.induct) simp_all

lemma getOAuthPath_fst: "fst (getOAuthPath wd fs) = join (join wd ''.mom'') ''oauth.json''"
  by (simp add: getOAuthPath_def Let_def)

lemma removeCredentials_files:
  "files fs (fst (getOAuthPath wd fs)) = Some old \<Longrightarrow>
   files (removeCredentials wd fs) = (files fs)(fst (getOAuthPath wd fs) \<mapsto> ''{}'')"
  by (auto simp add: removeCredentials_def getOAuthPath_def Let_def existsSync_def
      split: prod.splits)

lemma post_oauth: "oauth (snd (post tr c m w)) = oauth w"
  by (simp add: post_def call_def split: sum.splits)

lemma post_channelStates: "channelStates (snd (post tr c m w)) = channelStates w"
  by (simp add: post_def call_def split: sum.splits)

lemma getState_oauth: "oauth (snd (getState wd c w)) = oauth w"
  by (simp add: getState_def Let_def split: option.splits)

lemma route_logout:
  "trim (ev_text event) = ''/logout'' \<or> trim (ev_text event) = ''/logout anthropic'' \<Longrightarrow>
   route env event oa = Logout"
  by (auto simp add: route_def Let_def)

lemma handleEvent_Logout:
  "route env event (oauth w) = Logout \<Longrightarrow>
   handleEvent env event ie w =
     post (transport env) (ev_channel event) (check_mark @ '' Logged out of Anthropic'')
       ((snd (getState (workingDir env) (ev_channel event) w))
          \<lparr>oauth := (oauth w)\<lparr>disk := removeCredentials (workingDir env) (disk (oauth w))\<rparr>\<rparr>)"
  by (simp add: handleEvent_def split_def Let_def getState_oauth)

lemma handleEvent_Login:
  "route env event (oauth w) = Login \<Longrightarrow>
   handleEvent env event ie w =
     post (transport env) (ev_channel event)
       (login_message (fst (startLogin (builtins env) (random env) (now_start env)
                              (ev_channel event) (oauth w))))
       ((snd (getState (workingDir env) (ev_channel event) w))
          \<lparr>oauth := snd (startLogin (builtins env) (random env) (now_start env)
                          (ev_channel event) (oauth w))\<rparr>)"
  by (simp add: handleEvent_def split_def Let_def getState_oauth)

lemma handleEvent_AuthStatus:
  "route env event (oauth w) = AuthStatus \<Longrightarrow>
   handleEvent env event ie w =
     post (transport env) (ev_channel event)
       (auth_status (fst (isLoggedIn (builtins env) (workingDir env) (disk (oauth w))))
          (hasEnvKey env))
       ((snd (getState (workingDir env) (ev_channel event) w))
          \<lparr>oauth := (oauth w)\<lparr>disk := snd (isLoggedIn (builtins env) (workingDir env)
                                            (disk (oauth w)))\<rparr>\<rparr>)"
  by (simp add: handleEvent_def split_def Let_def getState_oauth)

lemma handleEvent_Completion:
  "route env event (oauth w) = Completion \<Longrightarrow>
   handleEvent env event ie w =
     post (transport env) (ev_channel event)
       (completion_text (fst (completeLogin (builtins env) (endpoint env) (now_complete env)
               (now_token env) (ev_channel event) (trim (ev_text event)) (workingDir env)
               (snd (hasPendingAuth (now_pending env) (ev_channel event) (oauth w))))))
       ((snd (getState (workingDir env) (ev_channel event) w))
          \<lparr>oauth := snd (completeLogin (builtins env) (endpoint env) (now_complete env)
               (now_token env) (ev_channel event) (trim (ev_text event)) (workingDir env)
               (snd (hasPendingAuth (now_pending env) (ev_channel event) (oauth w))))\<rparr>)"
  by (simp add: handleEvent_def split_def Let_def getState_oauth)

lemma handleEvent_AgentPath:
  "route env event (oauth w) = AgentPath \<Longrightarrow>
   handleEvent env event ie w =
     (None, (snd (getState (workingDir env) (ev_channel event) w))
        \<lparr>channelStates :=
           (channelStates (snd (getState (workingDir env) (ev_channel event) w)))
             (ev_channel event \<mapsto>
                fst (start_run env event ie (fst (getState (workingDir env) (ev_channel event) w))
                       (trace (snd (getState (workingDir env) (ev_channel event) w))))),
         oauth := snd (hasPendingAuth (now_pending env) (ev_channel event) (oauth w)),
         trace := snd (start_run env event ie (fst (getState (workingDir env) (ev_channel event) w))
                       (trace (snd (getState (workingDir env) (ev_channel event) w))))\<rparr>)"
  by (simp add: handleEvent_def split_def Let_def getState_oauth)

lemma start_run_not_running: "running (fst (start_run env event ie st t)) = False"
  by (simp add: start_run_def Let_def split: prod.splits option.splits)

lemma isRunning_getState: "isRunning c (snd (getState wd ch w)) = isRunning c w"
  by (simp add: getState_def isRunning_def Let_def split: option.splits)

lemma isRunning_post: "isRunning c (snd (post tr ch m w)) = isRunning c w"
  by (simp add: isRunning_def post_channelStates)

lemma isRunning_oauth_update: "isRunning c (w\<lparr>oauth := x\<rparr>) = isRunning c w"
  by (simp add: isRunning_def)

lemma handleEvent_agent_idle:
  "route env event (oauth w) = AgentPath \<Longrightarrow>
   \<not> isRunning (ev_channel event) (snd (handleEvent env event ie w))"
  by (simp add: handleEvent_AgentPath isRunning_def start_run_not_running)

lemma handleEvent_isRunning:
  "isRunning c (snd (handleEvent env event ie w)) \<Longrightarrow> isRunning c w"
proof (cases "route env event (oauth w)")
  case AgentPath
  then show "isRunning c (snd (handleEvent env event ie w)) \<Longrightarrow> isRunning c w"
    using isRunning_getState[of c "workingDir env" "ev_channel event" w]
    by (auto simp add: handleEvent_AgentPath isRunning_def start_run_not_running split: if_splits)
qed (simp_all add: handleEvent_Login handleEvent_Logout handleEvent_AuthStatus
      handleEvent_Completion isRunning_post isRunning_oauth_update isRunning_getState)

lemma stop_state_running:
  "stop_state tr ch sto t = (r, sto', t') \<Longrightarrow> map_option running sto' = map_option running sto"
  by (auto simp add: stop_state_def call_def Let_def split: option.splits if_splits sum.splits)

lemma handleStop_isRunning: "isRunning c (snd (handleStop tr ch w)) = isRunning c w"
proof -
  obtain r sto t where s: "stop_state tr ch (channelStates w ch) (trace w) = (r, sto, t)"
    by (cases "stop_state tr ch (channelStates w ch) (trace w)") auto
  from stop_state_running[OF s] show ?thesis
    by (auto simp add: handleStop_def s isRunning_def split: option.splits)
qed

lemma dispatch_isRunning: "isRunning c (dispatch ev w) \<Longrightarrow> isRunning c w"
  by (cases ev) (auto simp add: handleStop_isRunning dest: handleEvent_isRunning)

lemma run_all_isRunning: "isRunning c (run_all evs w) \<Longrightarrow> isRunning c w"
  unfolding run_all_def
  by (induction evs arbitrary: w) (auto dest: dispatch_isRunning)

lemmas eval_defs =
  handleEvent_def route_def getState_def start_run_def begin_state_def begin_trace_def try_block_def run_agent_def prepare_def
  reconcile_stop_def runner_run_def on_ctx_def stop_state_def handleStop_def post_def call_def
  respond_def replaceMessage_def respondInThread_def setTyping_def setWorking_def
  uploadFile_def deleteMessage_def chained_def post_or_update_def displayText_def
  createSlackContext_def match_event_filename_def workingIndicator_def
  startLogin_def hasPendingAuth_def completeLogin_def token_request_def removeCredentials_def
  saveCredentials_def loadCredentials_def isLoggedIn_def getOAuthPath_def existsSync_def
  generatePKCE_def purge_expired_def expired_def AUTH_TIMEOUT_MS_def authParams_def
  form_encode_def form_encode_char_def form_safe_def hex_digit_def b64char_def
  b64url_alphabet_def CLIENT_ID_def AUTHORIZE_URL_def REDIRECT_URI_def SCOPES_def
  login_message_def completion_text_def auth_status_def nl_def check_mark_def ballot_x_def
  trim_def is_ws_def white_space_def utf8_len_def substring0_def signal_done_def
  str_includes_def join_def isRunning_def run_all_def strip_api_def
  tr_ok_def tr_down_def tr_no_delete_def tr_no_ack_def tr_until_def bi0_def endpoint_400_def endpoint_unreachable_def
  env0_def event0_def nbsp_def world0_def Let_def split_def

section \<open>C9: logout overwrites the credential file\<close>

text \<open>
  Claim C9. Logout is destructive by overwriting, not by deletion: when the handler
  receives the \<open>/logout\<close> command (or \<open>/logout anthropic\<close>) and the credential file of the
  working directory existed beforehand, afterwards the file still exists and its content is
  the empty record \<open>{}\<close>; no other file changes.
\<close>

theorem logout_overwrites:
  assumes "trim (ev_text event) = ''/logout'' \<or> trim (ev_text event) = ''/logout anthropic''"
    and "files (disk (oauth w)) (fst (getOAuthPath (workingDir env) (disk (oauth w)))) = Some old"
  shows "files (disk (oauth (snd (handleEvent env event isEvent w)))) =
           (files (disk (oauth w)))(fst (getOAuthPath (workingDir env) (disk (oauth w))) \<mapsto> ''{}'')"
  using assms
  by (simp add: handleEvent_Logout route_logout post_oauth removeCredentials_files)

theorem logout_overwrites_witness:
  "files (disk (oauth world0)) ''/data/.mom/oauth.json'' = Some ''{anthropic:tok}'' \<and>
   files (disk (oauth (snd (handleEvent env0 (event0 '' /logout '') False world0))))
     ''/data/.mom/oauth.json'' = Some ''{}''"
  using logout_overwrites[of "event0 '' /logout ''" world0 env0 "''{anthropic:tok}''" False]
  by (simp add: trim_def is_ws_def white_space_def utf8_len_def event0_def world0_def env0_def
      getOAuthPath_def join_def
      existsSync_def)

section \<open>C1: the running flag is always cleared\<close>

text \<open>
  Claim C1. For every inbound event that starts a run (the handler takes the normal agent
  path), the handler returns without throwing and the channel's \<open>running\<close> flag is false
  afterwards, whatever the agent run did (returned, was aborted, threw) and whatever the
  transport did. And from a state in which no channel is running, no finite sequence of
  message and stop events leaves any channel with \<open>running\<close> true.
\<close>

theorem running_cleared:
  "(route env event (oauth w) = AgentPath \<longrightarrow>
      fst (handleEvent env event isEvent w) = None \<and>
      \<not> isRunning (ev_channel event) (snd (handleEvent env event isEvent w))) \<and>
   ((\<forall>c. \<not> isRunning c w) \<longrightarrow> (\<forall>c. \<not> isRunning c (run_all evs w)))"
  using handleEvent_agent_idle[of env event w isEvent] run_all_isRunning[of _ evs w]
  by (auto simp add: handleEvent_AgentPath)

theorem running_cleared_witness:
  "route env0 (event0 ''hello'') (oauth world0) = AgentPath \<and>
   fst (handleEvent env0 (event0 ''hello'') False world0) = None \<and>
   \<not> isRunning ''C1'' (snd (handleEvent env0 (event0 ''hello'') False world0)) \<and>
   (\<forall>c. \<not> isRunning c world0) \<and>
   \<not> isRunning ''C1''
       (run_all [Message env0 (event0 ''hello'') False, Stop tr_down ''C1'',
                 Message (env0\<lparr>transport := tr_down\<rparr>) (event0 ''again'') True] world0)"
proof -
  have r: "route env0 (event0 ''hello'') (oauth world0) = AgentPath"
    by (simp add: eval_defs)
  have i: "\<forall>c. \<not> isRunning c world0"
    by (simp add: isRunning_def world0_def)
  from running_cleared[of env0 "event0 ''hello''" world0 False
      "[Message env0 (event0 ''hello'') False, Stop tr_down ''C1'',
        Message (env0\<lparr>transport := tr_down\<rparr>) (event0 ''again'') True]"] r i
  show ?thesis by (simp add: event0_def)
qed

section \<open>C3: a failed token exchange\<close>

text \<open>
  Claim C3. When \<open>completeLogin\<close> is called while the channel has a pending authentication
  (not yet past its timeout, so that the exchange is attempted) and the token exchange fails
  (\<open>fetch\<close> throws, or the endpoint answers with a non-2xx response), the result is a
  structured failure \<open>{success: false, error}\<close>, the disk (and so the stored credential) is
  unchanged, and the channel's pending entry is removed. When \<open>fetch\<close> throws, the error is
  \<open>Login failed:\<close> followed by the thrown value; for a non-2xx response whose body can be
  read, the error is \<open>Token exchange failed:\<close> followed by that body.
\<close>

theorem completeLogin_exchange_fails:
  assumes "pendingAuths st channelId = Some pending"
    and "\<not> expired now_check pending"
    and "case ep (token_request pending authCode) of
           Inl e \<Rightarrow> True | Inr tokenResponse \<Rightarrow> \<not> ok tokenResponse"
  shows "success (fst (completeLogin bi ep now_check now_tok channelId authCode wd st))
           = False \<and>
         error (fst (completeLogin bi ep now_check now_tok channelId authCode wd st))
           \<noteq> None \<and>
         disk (snd (completeLogin bi ep now_check now_tok channelId authCode wd st))
           = disk st \<and>
         pendingAuths (snd (completeLogin bi ep now_check now_tok channelId authCode wd st))
           = (pendingAuths st)(channelId := None) \<and>
         (\<forall>e. ep (token_request pending authCode) = Inl e \<longrightarrow>
            error (fst (completeLogin bi ep now_check now_tok channelId authCode wd st))
              = Some (''Login failed: '' @ String_of e)) \<and>
         (\<forall>tokenResponse body.
            ep (token_request pending authCode) = Inr tokenResponse \<and>
            body_text tokenResponse = Inr body \<longrightarrow>
            error (fst (completeLogin bi ep now_check now_tok channelId authCode wd st))
              = Some (''Token exchange failed: '' @ body))"
  using assms
  by (auto simp add: completeLogin_def Let_def split: sum.splits)

lemma world1_pending:
  "pendingAuths (oauth world1) ''C1'' = Some \<lparr>verifier = ''TWFu'', challenge = ''AQID'', createdAt = 1000\<rparr>"
  by (simp add: world1_def eval_defs)

theorem completeLogin_exchange_fails_witness:
  "success (fst (completeLogin bi0 endpoint_400 2001 2500 ''C1'' ''abc#TWFu'' ''/data'' (oauth world1)))
     = False \<and>
   error (fst (completeLogin bi0 endpoint_400 2001 2500 ''C1'' ''abc#TWFu'' ''/data'' (oauth world1)))
     = Some ''Token exchange failed: {error: invalid_grant}'' \<and>
   disk (snd (completeLogin bi0 endpoint_400 2001 2500 ''C1'' ''abc#TWFu'' ''/data'' (oauth world1)))
     = disk (oauth world1) \<and>
   pendingAuths (snd (completeLogin bi0 endpoint_400 2001 2500 ''C1'' ''abc#TWFu'' ''/data''
                        (oauth world1))) ''C1'' = None \<and>
   error (fst (completeLogin bi0 endpoint_unreachable 2001 2500 ''C1'' ''abc#TWFu'' ''/data''
                 (oauth world1)))
     = Some ''Login failed: TypeError: fetch failed'' \<and>
   disk (snd (completeLogin bi0 endpoint_unreachable 2001 2500 ''C1'' ''abc#TWFu'' ''/data''
                (oauth world1)))
     = disk (oauth world1)"
  using completeLogin_exchange_fails[of "oauth world1" "''C1''"
      "\<lparr>verifier = ''TWFu'', challenge = ''AQID'', createdAt = 1000\<rparr>" 2001 endpoint_400
      "''abc#TWFu''" bi0 2500 "''/data''"]
    completeLogin_exchange_fails[of "oauth world1" "''C1''"
      "\<lparr>verifier = ''TWFu'', challenge = ''AQID'', createdAt = 1000\<rparr>" 2001
      endpoint_unreachable "''abc#TWFu''" bi0 2500 "''/data''"] world1_pending
  by (simp add: expired_def AUTH_TIMEOUT_MS_def endpoint_400_def endpoint_unreachable_def)

section \<open>C5: one pending authentication per channel\<close>

lemma fold_login_callback_other:
  "c' \<noteq> c \<Longrightarrow> pendingLogins (fold (login_callback c) calls a) c' = pendingLogins a c'"
proof (induction calls arbitrary: a)
  case (Cons x xs)
  then show ?case by (cases x) simp_all
qed simp

lemma fold_login_callback_old:
  "n < fresh a \<Longrightarrow>
   promises (fold (login_callback c) calls a) n = promises a n \<and>
   (n \<in> timers (fold (login_callback c) calls a)) = (n \<in> timers a)"
proof (induction calls arbitrary: a)
  case (Cons x xs)
  show ?case using Cons.IH[of "login_callback c x a"] Cons.prems by (cases x) auto
qed simp

lemma fold_login_callback_no_prompt:
  "OnPrompt \<notin> set calls \<Longrightarrow>
   pendingLogins (fold (login_callback c) calls a) c = pendingLogins a c"
proof (induction calls arbitrary: a)
  case (Cons x xs)
  then show ?case by (cases x) simp_all
qed simp

lemma fold_login_callback_keeps:
  "established n c a \<Longrightarrow> established n c (fold (login_callback c) calls a)"
proof (induction calls arbitrary: a)
  case (Cons x xs)
  have "established n c (login_callback c x a)"
    using Cons.prems by (cases x) (auto simp add: established_def split: option.splits)
  then show ?case using Cons.IH by simp
qed simp

lemma fold_login_callback_prompt:
  "OnPrompt \<in> set calls \<Longrightarrow> established (fresh a) c (fold (login_callback c) calls a)"
proof (induction calls arbitrary: a)
  case (Cons x xs)
  show ?case
  proof (cases x)
    case (OnAuth url)
    then show ?thesis using Cons.IH[of "login_callback c x a"] Cons.prems by simp
  next
    case OnPrompt
    have "established (fresh a) c (login_callback c OnPrompt a)"
      by (simp add: established_def)
    then show ?thesis using OnPrompt fold_login_callback_keeps by simp
  qed
qed simp

text \<open>
  Claim C5. A channel has at most one pending authentication (the pending entries are a map
  keyed by channel). \<open>startLogin\<close> replaces whatever entry the channel had by the
  newly created one and only purges expired entries elsewhere. The waiter-based
  \<open>handleLogin\<close>, called while a login is pending on the channel, clears the prior
  flow's timer and rejects its waiter, and the entry the channel has afterwards is never the
  prior one: it is the entry made by the login's \<open>onPrompt\<close> callback, with a new waiter
  and a new running timer (or none, if the login never prompts).
\<close>

theorem one_pending_per_channel:
  "pendingAuths (snd (startLogin bi rnd now c st)) c =
     Some \<lparr>verifier = base64url rnd, challenge = base64url (sha256 bi (base64url rnd)),
           createdAt = now\<rparr> \<and>
   (\<forall>c'. c' \<noteq> c \<longrightarrow>
      pendingAuths (snd (startLogin bi rnd now c st)) c' = purge_expired now (pendingAuths st) c') \<and>
   (\<forall>existing.
      pendingLogins a c = Some existing \<and> promise existing < fresh a \<and>
      timeout existing < fresh a \<and> promises a (promise existing) = Some Waiting \<longrightarrow>
      timeout existing \<notin> timers (handleLogin calls c a) \<and>
      promises (handleLogin calls c a) (promise existing)
        = Some (Rejected ''Login cancelled - new login started'') \<and>
      pendingLogins (handleLogin calls c a) c \<noteq> Some existing \<and>
      (\<forall>c'. c' \<noteq> c \<longrightarrow> pendingLogins (handleLogin calls c a) c' = pendingLogins a c') \<and>
      (if OnPrompt \<in> set calls then established (fresh a) c (handleLogin calls c a)
       else pendingLogins (handleLogin calls c a) c = None))"
proof -
  have s1: "pendingAuths (snd (startLogin bi rnd now c st)) c =
     Some \<lparr>verifier = base64url rnd, challenge = base64url (sha256 bi (base64url rnd)),
           createdAt = now\<rparr>"
    by (simp add: startLogin_def generatePKCE_def Let_def)
  have s2: "\<forall>c'. c' \<noteq> c \<longrightarrow>
      pendingAuths (snd (startLogin bi rnd now c st)) c' = purge_expired now (pendingAuths st) c'"
    by (simp add: startLogin_def generatePKCE_def Let_def)
  have s3: "timeout existing \<notin> timers (handleLogin calls c a) \<and>
      promises (handleLogin calls c a) (promise existing)
        = Some (Rejected ''Login cancelled - new login started'') \<and>
      pendingLogins (handleLogin calls c a) c \<noteq> Some existing \<and>
      (\<forall>c'. c' \<noteq> c \<longrightarrow> pendingLogins (handleLogin calls c a) c' = pendingLogins a c') \<and>
      (if OnPrompt \<in> set calls then established (fresh a) c (handleLogin calls c a)
       else pendingLogins (handleLogin calls c a) c = None)"
    if ex: "pendingLogins a c = Some existing" and p: "promise existing < fresh a"
      and t: "timeout existing < fresh a" and w: "promises a (promise existing) = Some Waiting"
    for existing
  proof -
    define a2 where "a2 = a\<lparr>timers := timers a - {timeout existing},
                       promises := settle (promise existing)
                                     (Rejected ''Login cancelled - new login started'')
                                     (promises a),
                       pendingLogins := (pendingLogins a)(c := None),
                       posted := posted a @ [LogInfo (''['' @ c @ ''] Starting OAuth login'')]\<rparr>"
    have h: "handleLogin calls c a = fold (login_callback c) calls a2"
      by (simp add: handleLogin_def ex a2_def Let_def)
    have f: "fresh a2 = fresh a" by (simp add: a2_def)
    have old: "promises (fold (login_callback c) calls a2) (promise existing)
                 = promises a2 (promise existing)"
       "(timeout existing \<in> timers (fold (login_callback c) calls a2))
                 = (timeout existing \<in> timers a2)"
      using fold_login_callback_old[of "promise existing" a2 c calls]
        fold_login_callback_old[of "timeout existing" a2 c calls] p t f by simp_all
    have c1: "timeout existing \<notin> timers (handleLogin calls c a)"
      using old(2) by (simp add: h a2_def)
    have c2: "promises (handleLogin calls c a) (promise existing)
        = Some (Rejected ''Login cancelled - new login started'')"
      using old(1) w by (simp add: h a2_def settle_def)
    have c4: "\<forall>c'. c' \<noteq> c \<longrightarrow> pendingLogins (handleLogin calls c a) c' = pendingLogins a c'"
      by (simp add: h fold_login_callback_other a2_def)
    have c5: "if OnPrompt \<in> set calls then established (fresh a) c (handleLogin calls c a)
       else pendingLogins (handleLogin calls c a) c = None"
      using fold_login_callback_prompt[of calls a2 c] fold_login_callback_no_prompt[of calls c a2] f
      by (simp add: h a2_def)
    have c3: "pendingLogins (handleLogin calls c a) c \<noteq> Some existing"
    proof (cases "OnPrompt \<in> set calls")
      case True
      then have "established (fresh a) c (handleLogin calls c a)" using c5 by simp
      then show ?thesis using p by (auto simp add: established_def split: option.splits)
    next
      case False
      then show ?thesis using c5 by simp
    qed
    show ?thesis using c1 c2 c3 c4 c5 by blast
  qed
  show ?thesis using s1 s2 s3 by blast
qed

theorem one_pending_per_channel_witness:
  "pendingAuths (snd (startLogin bi0 [0x4D] 5000 ''C1'' (oauth world1))) ''C1'' =
     Some \<lparr>verifier = ''TQ'', challenge = ''AQID'', createdAt = 5000\<rparr> \<and>
   pendingLogins auth1 ''C1'' = Some \<lparr>promise = 0, timeout = 1\<rparr> \<and>
   1 \<notin> timers (handleLogin [OnAuth ''u'', OnPrompt] ''C1'' auth1) \<and>
   promises (handleLogin [OnAuth ''u'', OnPrompt] ''C1'' auth1) 0
     = Some (Rejected ''Login cancelled - new login started'') \<and>
   pendingLogins (handleLogin [OnAuth ''u'', OnPrompt] ''C1'' auth1) ''C1''
     = Some \<lparr>promise = 2, timeout = 3\<rparr>"
proof -
  have e: "pendingLogins (handleLogin [OnAuth ''u'', OnPrompt] ''C1'' auth1) ''C1''
     = Some \<lparr>promise = 2, timeout = 3\<rparr>"
    by (simp add: handleLogin_def auth1_def Let_def)
  show ?thesis
    using one_pending_per_channel[of bi0 "[0x4D]" 5000 "''C1''" "oauth world1" auth1
        "[OnAuth ''u'', OnPrompt]"] e
    by (simp add: auth1_def bi0_def b64char_def b64url_alphabet_def)
qed

section \<open>C10: the authorization URL carries the verifier as state\<close>

lemma b64char_safe: "b64char n \<in> set b64url_alphabet"
  unfolding b64char_def by (rule nth_mem) (simp add: b64url_alphabet_def)

lemma base64url_safe: "set (base64url bs) \<subseteq> set b64url_alphabet"
  by (induction bs rule: base64url.induct) (simp_all add: Let_def b64char_safe)

lemma alphabet_form_safe: "set b64url_alphabet \<subseteq> set form_safe"
  by (simp add: b64url_alphabet_def form_safe_def)

lemma form_encode_id: "set s \<subseteq> set form_safe \<Longrightarrow> form_encode s = s"
  by (induction s) (simp_all add: form_encode_def form_encode_char_def)

lemma form_encode_base64url: "form_encode (base64url bs) = base64url bs"
  using base64url_safe[of bs] alphabet_form_safe by (intro form_encode_id) blast

lemma form_encode_consts:
  "form_encode ''code'' = ''code''"
  "form_encode ''true'' = ''true''"
  "form_encode ''client_id'' = ''client_id''"
  "form_encode CLIENT_ID = ''9d1c250a-e61b-44d9-88ed-5944d1962f5e''"
  "form_encode ''response_type'' = ''response_type''"
  "form_encode ''redirect_uri'' = ''redirect_uri''"
  "form_encode REDIRECT_URI = ''https%3A%2F%2Fconsole.anthropic.com%2Foauth%2Fcode%2Fcallback''"
  "form_encode ''scope'' = ''scope''"
  "form_encode SCOPES = ''org%3Acreate_api_key+user%3Aprofile+user%3Ainference''"
  "form_encode ''code_challenge'' = ''code_challenge''"
  "form_encode ''code_challenge_method'' = ''code_challenge_method''"
  "form_encode ''S256'' = ''S256''"
  "form_encode ''state'' = ''state''"
  by (simp_all add: form_encode_def form_encode_char_def form_safe_def hex_digit_def
      CLIENT_ID_def REDIRECT_URI_def SCOPES_def)

text \<open>
  Claim C10. For every call of \<open>startLogin\<close>, the URL returned is the authorization
  address followed by the serialized parameters, in which the \<open>state\<close> parameter is the
  PKCE verifier stored in the channel's pending entry (the secret itself, unchanged by the
  URL encoding), and the \<open>code_challenge\<close> parameter is the base64url encoding of the
  SHA-256 hash of that same verifier.
\<close>

theorem startLogin_state_is_verifier:
  "pendingAuths (snd (startLogin bi rnd now c st)) c =
     Some \<lparr>verifier = base64url rnd, challenge = base64url (sha256 bi (base64url rnd)),
           createdAt = now\<rparr> \<and>
   fst (startLogin bi rnd now c st) =
     ''https://claude.ai/oauth/authorize?code=true'' @
     ''&client_id=9d1c250a-e61b-44d9-88ed-5944d1962f5e&response_type=code'' @
     ''&redirect_uri=https%3A%2F%2Fconsole.anthropic.com%2Foauth%2Fcode%2Fcallback'' @
     ''&scope=org%3Acreate_api_key+user%3Aprofile+user%3Ainference'' @
     ''&code_challenge='' @ base64url (sha256 bi (base64url rnd)) @
     ''&code_challenge_method=S256'' @
     ''&state='' @ base64url rnd \<and>
   fst (startLogin bi rnd now c st) =
     AUTHORIZE_URL @ ''?'' @
       params_toString (authParams (base64url rnd) (base64url (sha256 bi (base64url rnd)))) \<and>
   map_of (authParams (base64url rnd) (base64url (sha256 bi (base64url rnd)))) ''state''
     = Some (base64url rnd) \<and>
   map_of (authParams (base64url rnd) (base64url (sha256 bi (base64url rnd)))) ''code_challenge''
     = Some (base64url (sha256 bi (base64url rnd)))"
  by (simp add: startLogin_def generatePKCE_def Let_def authParams_def form_encode_consts
      form_encode_base64url AUTHORIZE_URL_def)

theorem startLogin_state_is_verifier_witness:
  "fst (startLogin bi0 [0x4D, 0x61, 0x6E] 1000 ''C1'' (oauth world0)) =
     ''https://claude.ai/oauth/authorize?code=true'' @
     ''&client_id=9d1c250a-e61b-44d9-88ed-5944d1962f5e&response_type=code'' @
     ''&redirect_uri=https%3A%2F%2Fconsole.anthropic.com%2Foauth%2Fcode%2Fcallback'' @
     ''&scope=org%3Acreate_api_key+user%3Aprofile+user%3Ainference'' @
     ''&code_challenge=AQID&code_challenge_method=S256&state=TWFu'' \<and>
   map_option verifier (pendingAuths (snd (startLogin bi0 [0x4D, 0x61, 0x6E] 1000 ''C1''
                                             (oauth world0))) ''C1'') = Some ''TWFu''"
  using startLogin_state_is_verifier[of bi0 "[0x4D, 0x61, 0x6E]" 1000 "''C1''" "oauth world0"]
  by (simp add: bi0_def b64char_def b64url_alphabet_def)

section \<open>C4: which messages complete a login\<close>





lemma getState_trace: "trace (snd (getState wd c w)) = trace w"
  by (simp add: getState_def Let_def split: option.splits)




section \<open>C6: the terminal message after a stop\<close>




section \<open>C7: a failing agent run\<close>

text \<open>
  Claim C7. On the agent path no error ever leaves \<open>handleEvent\<close>. If the agent call
  throws (the handler having got as far as calling it), the handler returns normally, the
  only thing it does after the throw is log a warning with the error's message (nothing is
  posted to the channel), and the session is idle again: \<open>running\<close> is false.
\<close>

theorem run_error_swallowed:
  assumes "route env event (oauth w) = AgentPath"
  shows "fst (handleEvent env event isEvent w) = None \<and>
         (\<forall>l2 e. prepare env event isEvent
                   (begin_state (fst (getState (workingDir env) (ev_channel event) w)))
                   (begin_trace event (trace w)) = (None, l2) \<and>
                 outcome (agent env) = Inl e \<longrightarrow>
            trace (snd (handleEvent env event isEvent w)) =
              effects (snd (runner_run (transport env) event (agent env) l2)) @
              [LogWarning (''['' @ ev_channel event @ ''] Run error'') (message_of e)] \<and>
            channelStates (snd (handleEvent env event isEvent w)) (ev_channel event) =
              Some ((chan (snd (runner_run (transport env) event (agent env) l2)))
                      \<lparr>running := False\<rparr>))"
  by (auto simp add: handleEvent_AgentPath[OF assms] getState_trace start_run_def try_block_def
      run_agent_def runner_run_def Let_def)

theorem run_error_swallowed_witness:
  "fst (handleEvent
          (env0\<lparr>agent := \<lparr>steps = [CtxRespond ''half an answer'' True],
                           outcome = Inl (ErrorObj ''Error'' ''model overloaded'')\<rparr>\<rparr>)
          (event0 ''hello'') False world0) = None \<and>
   trace (snd (handleEvent
          (env0\<lparr>agent := \<lparr>steps = [CtxRespond ''half an answer'' True],
                           outcome = Inl (ErrorObj ''Error'' ''model overloaded'')\<rparr>\<rparr>)
          (event0 ''hello'') False world0)) =
     [LogInfo ''[C1] Starting run: hello'',
      SyncLogToContext ''/data/C1'' ''17.5'',
      PostMessage ''C1'' ''_Thinking_ ...'',
      UpdateMessage ''C1'' ''2'' ''_Thinking_ ...'',
      RunnerRun ''/data/C1'',
      UpdateMessage ''C1'' ''2'' (''_Thinking_'' @ nl @ ''half an answer ...''),
      LogBotResponse ''C1'' ''half an answer'' ''2'',
      LogWarning ''[C1] Run error'' ''model overloaded''] \<and>
   map_option running
     (channelStates (snd (handleEvent
          (env0\<lparr>agent := \<lparr>steps = [CtxRespond ''half an answer'' True],
                           outcome = Inl (ErrorObj ''Error'' ''model overloaded'')\<rparr>\<rparr>)
          (event0 ''hello'') False world0)) ''C1'') = Some False"
proof -
  let ?env = "env0\<lparr>agent := \<lparr>steps = [CtxRespond ''half an answer'' True],
                           outcome = Inl (ErrorObj ''Error'' ''model overloaded'')\<rparr>\<rparr>"
  let ?l2 = "\<lparr>ctx = \<lparr>messageTs = Some ''2'', threadMessageTs = [],
                      accumulatedText = ''_Thinking_'', isWorking = True, updatePromise = None,
                      eventFilename = None\<rparr>,
              chan = \<lparr>running = True, runner = ''/data/C1'', store = ''/data'',
                       stopRequested = False, stopMessageTs = None\<rparr>,
              effects = [LogInfo ''[C1] Starting run: hello'',
                         SyncLogToContext ''/data/C1'' ''17.5'',
                         PostMessage ''C1'' ''_Thinking_ ...'',
                         UpdateMessage ''C1'' ''2'' ''_Thinking_ ...'']\<rparr>"
  have r: "route ?env (event0 ''hello'') (oauth world0) = AgentPath"
    by (simp add: eval_defs)
  have p: "prepare ?env (event0 ''hello'') False
             (begin_state (fst (getState (workingDir ?env) (ev_channel (event0 ''hello'')) world0)))
             (begin_trace (event0 ''hello'') (trace world0)) = (None, ?l2)"
    by (simp add: eval_defs)
  have o: "outcome (agent ?env) = Inl (ErrorObj ''Error'' ''model overloaded'')"
    by (simp add: env0_def)
  have e: "snd (runner_run (transport ?env) (event0 ''hello'') (agent ?env) ?l2) =
           ?l2\<lparr>ctx := (ctx ?l2)\<lparr>accumulatedText := ''_Thinking_'' @ nl @ ''half an answer''\<rparr>,
                effects := effects ?l2 @
                  [RunnerRun ''/data/C1'',
                   UpdateMessage ''C1'' ''2'' (''_Thinking_'' @ nl @ ''half an answer ...''),
                   LogBotResponse ''C1'' ''half an answer'' ''2'']\<rparr>"
    by (simp add: eval_defs)
  show ?thesis
    using run_error_swallowed[OF r, of False] p o e
    by (simp add: event0_def)
qed

section \<open>C8: deleting what the adapter posted\<close>

lemma delete_thread_trace:
  "delete_thread tr ch tss t = t @ map (DeleteMessage ch) tss"
  by (induction tss arbitrary: t) (simp_all add: call_def)

text \<open>
  Claim C8, as the code has it. \<open>deleteMessage\<close> runs on the adapter's promise chain. When
  no earlier operation of the chain has failed, it asks for the deletion of every tracked
  thread message, last created first, whatever the transport answers to each, then for the
  deletion of the primary message if there is one; the thread handles are cleared, and the
  primary handle is cleared when its deletion succeeds, while a failure of that deletion is
  thrown. With nothing posted it is then a no-op and does not throw. When an earlier
  operation of the chain has failed, \<open>deleteMessage\<close> deletes nothing and throws that
  earlier error again.
\<close>

theorem deleteMessage_behaviour:
  "(updatePromise a = None \<longrightarrow>
      snd (snd (deleteMessage tr event a t)) =
        t @ map (DeleteMessage (ev_channel event)) (rev (threadMessageTs a)) @
        (if truthy (messageTs a) then [DeleteMessage (ev_channel event) (the (messageTs a))]
         else []) \<and>
      threadMessageTs (fst (snd (deleteMessage tr event a t))) = [] \<and>
      (if truthy (messageTs a)
       then (case tr (t @ map (DeleteMessage (ev_channel event)) (rev (threadMessageTs a)))
                     (DeleteMessage (ev_channel event) (the (messageTs a))) of
               Inr ts \<Rightarrow> fst (deleteMessage tr event a t) = None \<and>
                         messageTs (fst (snd (deleteMessage tr event a t))) = None
             | Inl e \<Rightarrow> fst (deleteMessage tr event a t) = Some e \<and>
                        messageTs (fst (snd (deleteMessage tr event a t))) = messageTs a)
       else fst (deleteMessage tr event a t) = None \<and>
            messageTs (fst (snd (deleteMessage tr event a t))) = messageTs a)) \<and>
   (updatePromise a = None \<and> messageTs a = None \<and> threadMessageTs a = [] \<longrightarrow>
      deleteMessage tr event a t = (None, a, t)) \<and>
   (\<forall>e. updatePromise a = Some e \<longrightarrow> deleteMessage tr event a t = (Some e, a, t))"
  by (auto simp add: deleteMessage_def chained_def delete_thread_trace call_def Let_def
      split: sum.splits)

theorem deleteMessage_behaviour_witness:
  "deleteMessage tr_no_delete (event0 ''hello'') ctx_posted [] =
     (Some (ErrorObj ''Error'' ''cant_delete_message''),
      ctx_posted\<lparr>threadMessageTs := [],
                 updatePromise := Some (ErrorObj ''Error'' ''cant_delete_message'')\<rparr>,
      [DeleteMessage ''C1'' ''8'', DeleteMessage ''C1'' ''7'', DeleteMessage ''C1'' ''2'']) \<and>
   deleteMessage tr_ok (event0 ''hello'') ctx_posted [] =
     (None, ctx_posted\<lparr>threadMessageTs := [], messageTs := None\<rparr>,
      [DeleteMessage ''C1'' ''8'', DeleteMessage ''C1'' ''7'', DeleteMessage ''C1'' ''2'']) \<and>
   deleteMessage tr_down (event0 ''hello'') (createSlackContext (event0 ''hello'') False) [] =
     (None, createSlackContext (event0 ''hello'') False, [])"
proof -
  have a: "deleteMessage tr_no_delete (event0 ''hello'') ctx_posted [] =
     (Some (ErrorObj ''Error'' ''cant_delete_message''),
      ctx_posted\<lparr>threadMessageTs := [],
                 updatePromise := Some (ErrorObj ''Error'' ''cant_delete_message'')\<rparr>,
      [DeleteMessage ''C1'' ''8'', DeleteMessage ''C1'' ''7'', DeleteMessage ''C1'' ''2''])"
    by (simp add: deleteMessage_def chained_def call_def ctx_posted_def tr_no_delete_def
        event0_def Let_def)
  have b: "deleteMessage tr_ok (event0 ''hello'') ctx_posted [] =
     (None, ctx_posted\<lparr>threadMessageTs := [], messageTs := None\<rparr>,
      [DeleteMessage ''C1'' ''8'', DeleteMessage ''C1'' ''7'', DeleteMessage ''C1'' ''2''])"
    by (simp add: deleteMessage_def chained_def call_def ctx_posted_def tr_ok_def
        event0_def Let_def)
  show ?thesis
    using deleteMessage_behaviour[of "createSlackContext (event0 ''hello'') False" tr_down
        "event0 ''hello''" "[]"] a b
    by (simp add: createSlackContext_def)
qed

text \<open>
  The claim as stated fails: after a first \<open>respond\<close> that the transport refused, no
  message was ever posted (there is no primary handle and no thread handle), and yet
  \<open>deleteMessage\<close>, even on a transport that now works, throws.
\<close>

theorem deleteMessage_counterexample:
  "messageTs (fst (snd failed_respond)) = None \<and>
   threadMessageTs (fst (snd failed_respond)) = [] \<and>
   snd (snd failed_respond) = [PostMessage ''C1'' ''hi ...''] \<and>
   tr_down [] (PostMessage ''C1'' ''hi ...'') = Inl (ErrorObj ''Error'' ''channel_not_found'') \<and>
   fst (deleteMessage tr_ok (event0 ''hello'') (fst (snd failed_respond)) (snd (snd failed_respond)))
     = Some (ErrorObj ''Error'' ''channel_not_found'')"
  by (simp add: failed_respond_def respond_def deleteMessage_def chained_def post_or_update_def
      displayText_def workingIndicator_def call_def createSlackContext_def tr_down_def
      event0_def Let_def)

section \<open>C2: the window is a suffix of the log\<close>

lemma accumulate_split:
  "\<exists>rest. xs = accumulate cost avail running_total xs @ rest \<and>
          (accumulate cost avail running_total xs \<noteq> [] \<longrightarrow>
             running_total + int (sum_list (map cost (accumulate cost avail running_total xs))) \<le> avail) \<and>
          (rest \<noteq> [] \<longrightarrow>
             avail < running_total + int (sum_list (map cost (accumulate cost avail running_total xs)))
                       + int (cost (hd rest)))"
proof (induction xs arbitrary: running_total)
  case Nil
  then show ?case by simp
next
  case (Cons e older)
  show ?case
  proof (cases "running_total + int (cost e) \<le> avail")
    case True
    from Cons.IH[of "running_total + int (cost e)"] obtain rest where
      r: "older = accumulate cost avail (running_total + int (cost e)) older @ rest"
        "accumulate cost avail (running_total + int (cost e)) older \<noteq> [] \<longrightarrow>
           running_total + int (cost e)
             + int (sum_list (map cost (accumulate cost avail (running_total + int (cost e)) older)))
           \<le> avail"
        "rest \<noteq> [] \<longrightarrow>
           avail < running_total + int (cost e)
             + int (sum_list (map cost (accumulate cost avail (running_total + int (cost e)) older)))
             + int (cost (hd rest))"
      by blast
    show ?thesis
    proof (intro exI[of _ rest] conjI)
      show "e # older = accumulate cost avail running_total (e # older) @ rest"
        using True r(1) by simp
      show "accumulate cost avail running_total (e # older) \<noteq> [] \<longrightarrow>
             running_total + int (sum_list (map cost (accumulate cost avail running_total (e # older)))) \<le> avail"
        using True r(2) by (cases "accumulate cost avail (running_total + int (cost e)) older = []") simp_all
      show "rest \<noteq> [] \<longrightarrow>
             avail < running_total + int (sum_list (map cost (accumulate cost avail running_total (e # older))))
                       + int (cost (hd rest))"
        using True r(3) by (simp add: algebra_simps)
    qed
  next
    case False
    then show ?thesis by simp
  qed
qed

text \<open>
  Claim C2, on the builder modelled from the spec. For every log and every budget the window
  is a contiguous suffix of the log in chronological order: the log is the dropped entries
  followed by the selected ones, and \<open>droppedCount\<close> counts the dropped ones. Unless the
  window is the single oversized newest entry, it is the reversal of what the backward scan
  accumulated, its total stays within \<open>availableForHistory\<close>, and the newest dropped entry
  would have exceeded it.
\<close>

theorem window_is_suffix:
  "\<exists>dropped.
     entries = dropped @ selectedLines (build cost entries cfg) \<and>
     length dropped = droppedCount (build cost entries cfg) \<and>
     (\<not> truncated (build cost entries cfg) \<longrightarrow>
        selectedLines (build cost entries cfg)
          = rev (accumulate cost (availableForHistory cfg) 0 (rev entries)) \<and>
        (selectedLines (build cost entries cfg) \<noteq> [] \<longrightarrow>
           int (totalTokens (build cost entries cfg)) \<le> availableForHistory cfg) \<and>
        (dropped \<noteq> [] \<longrightarrow>
           availableForHistory cfg
             < int (totalTokens (build cost entries cfg)) + int (cost (last dropped)))) \<and>
     (truncated (build cost entries cfg) \<longrightarrow>
        selectedLines (build cost entries cfg) = [last entries] \<and>
        availableForHistory cfg < int (cost (last entries)))"
proof -
  let ?acc = "accumulate cost (availableForHistory cfg) 0 (rev entries)"
  from accumulate_split[of "rev entries" cost "availableForHistory cfg" 0] obtain rest where
    r: "rev entries = ?acc @ rest"
      "?acc \<noteq> [] \<longrightarrow> int (sum_list (map cost ?acc)) \<le> availableForHistory cfg"
      "rest \<noteq> [] \<longrightarrow>
         availableForHistory cfg < int (sum_list (map cost ?acc)) + int (cost (hd rest))"
    by auto
  have e: "entries = rev rest @ rev ?acc"
    using r(1) by (metis rev_append rev_rev_ident)
  show ?thesis
  proof (cases "?acc = [] \<and> entries \<noteq> []")
    case True
    then obtain newest older where n: "rev entries = newest # older"
      by (cases "rev entries") auto
    have l: "last entries = newest" "entries = rev older @ [newest]"
      using n by (metis last_rev list.sel(1) rev_rev_ident hd_rev, metis rev.simps(2) rev_rev_ident)
    have b: "build cost entries cfg =
          \<lparr>selectedLines = [newest], totalTokens = cost newest, messageCount = 1,
           dateRange = Some (entry_ts newest, entry_ts newest),
           droppedCount = length older, truncated = True\<rparr>"
      using True n by (simp add: build_def Let_def)
    have accnil: "?acc = []" using True by simp
    have "rest = newest # older" using r(1) n unfolding accnil by simp
    then have "availableForHistory cfg < int (cost newest)" using r(3) unfolding accnil by simp
    then show ?thesis
      using b l by (intro exI[of _ "rev older"]) simp
  next
    case False
    have b: "build cost entries cfg =
          \<lparr>selectedLines = rev ?acc, totalTokens = sum_list (map cost ?acc),
           messageCount = length ?acc,
           dateRange = (case ?acc of [] \<Rightarrow> None
                        | newest # _ \<Rightarrow> Some (entry_ts (last ?acc), entry_ts newest)),
           droppedCount = length entries - length ?acc, truncated = False\<rparr>"
      using False by (cases "rev entries"; cases ?acc) (simp_all add: build_def Let_def)
    have len: "length (rev rest) = length entries - length ?acc"
      using e by (metis add_diff_cancel_right' length_append length_rev)
    have lastd: "rev rest \<noteq> [] \<longrightarrow> last (rev rest) = hd rest"
      by (simp add: last_rev)
    show ?thesis
      using b e len lastd r(2,3) by (intro exI[of _ "rev rest"]) auto
  qed
qed

theorem window_is_suffix_witness:
  "selectedLines (build cost0 [entry0 ''1'' ''good morning'', entry0 ''2'' ''hello'',
                              entry0 ''3'' ''status?''] cfg0)
     = [entry0 ''2'' ''hello'', entry0 ''3'' ''status?''] \<and>
   droppedCount (build cost0 [entry0 ''1'' ''good morning'', entry0 ''2'' ''hello'',
                              entry0 ''3'' ''status?''] cfg0) = 1 \<and>
   totalTokens (build cost0 [entry0 ''1'' ''good morning'', entry0 ''2'' ''hello'',
                              entry0 ''3'' ''status?''] cfg0) = 12 \<and>
   availableForHistory cfg0 = 12 \<and>
   (\<exists>dropped. [entry0 ''1'' ''good morning'', entry0 ''2'' ''hello'', entry0 ''3'' ''status?'']
        = dropped @ [entry0 ''2'' ''hello'', entry0 ''3'' ''status?''] \<and> length dropped = 1)"
proof -
  let ?log = "[entry0 ''1'' ''good morning'', entry0 ''2'' ''hello'', entry0 ''3'' ''status?'']"
  have b: "build cost0 ?log cfg0 =
      \<lparr>selectedLines = [entry0 ''2'' ''hello'', entry0 ''3'' ''status?''], totalTokens = 12,
       messageCount = 2, dateRange = Some (''2'', ''3''), droppedCount = 1, truncated = False\<rparr>"
    by (simp add: build_def availableForHistory_def cfg0_def cost0_def entry0_def Let_def)
  have a: "availableForHistory cfg0 = 12"
    by (simp add: availableForHistory_def cfg0_def)
  from window_is_suffix[of ?log cost0 cfg0] obtain dropped where
    "?log = dropped @ selectedLines (build cost0 ?log cfg0)"
    "length dropped = droppedCount (build cost0 ?log cfg0)"
    by blast
  then have "\<exists>dropped. ?log = dropped @ [entry0 ''2'' ''hello'', entry0 ''3'' ''status?'']
                \<and> length dropped = 1"
    using b by auto
  then show ?thesis using a b by simp
qed

end
